theory Spec2Isabelle
  imports Complex_Main
begin

section \<open>Values, errors and the outside world\<close>

text \<open>
  The worker scans a chain for TokenMigrated logs and posts one signed message per log to a
  queue. Strings are byte strings. A JavaScript exception is a value of type \<open>error\<close>, and a
  function that may throw returns \<open>error + 'a\<close> with \<open>Inl\<close> for the thrown value. An async
  function is its sequential run: there is one thread of control and every call is awaited.
\<close>

datatype error =
    TypeError string
  | Error string
  | ConfigError string string

text \<open>
  A JavaScript value as far as \<open>JSON.stringify\<close> looks at it: \<open>objectData\<close> of
  \<open>sendMessage\<close> has type \<open>any\<close> and the payload of \<open>sendMessageToSQS\<close> is a
  \<open>Record<string, unknown>\<close>. An object is the list of its own properties in insertion order.
\<close>

datatype jsval =
    JUndefined
  | JNull
  | JBool bool
  | JNum rat
  | JStr string
  | JBigInt int
  | JArr "jsval list"
  | JObj "(string \<times> jsval) list"

text \<open>\<open>JSON.stringify\<close> throws a TypeError on a BigInt wherever it sits in the value.\<close>

fun has_bigint :: "jsval \<Rightarrow> bool" where
  "has_bigint (JBigInt n) = True"
| "has_bigint (JArr vs) = list_ex has_bigint vs"
| "has_bigint (JObj kvs) = list_ex (\<lambda>kv. has_bigint (snd kv)) kvs"
| "has_bigint v = False"

record utc_date =
  getUTCFullYear :: nat
  getUTCMonth :: nat
  getUTCDate :: nat
  getUTCHours :: nat
  getUTCMinutes :: nat
  getUTCSeconds :: nat

record http_request =
  url :: string
  http_method :: string
  X_Amz_Date :: string
  X_Amz_Target :: string
  Content_Type :: string
  Authorization :: string
  body :: string

datatype rpc_call =
    GetBlockNumber
  | QueryFilter int int
  | GetBlock int

text \<open>
  The state of the world the worker acts on: the wall clock in milliseconds, the HTTP requests
  sent so far (each with the clock reading when it was sent), the calls made to the chain node,
  and the delays awaited through \<open>setTimeout\<close>, all in the order they happened.
\<close>

record world =
  clock :: nat
  requests :: "(nat \<times> http_request) list"
  rpc_calls :: "rpc_call list"
  naps :: "int list"

record EventArgs =
  token :: "string option"
  pairAddress :: "string option"
  amountToken :: "int option"
  amountETH :: "int option"

record event =
  args :: "EventArgs option"
  blockNumber :: int
  transactionHash :: string
  transactionIndex :: int
  logIndex :: int

text \<open>
  What the code calls and does not define: node's \<open>crypto\<close> digests, the text
  \<open>JSON.stringify\<close> produces, the calendar of \<open>Date\<close>, \<open>fetch\<close> and the response decoder,
  the chain node behind \<open>ethers\<close> (with the construction of the provider and the contract
  object, which may throw), and the queue probe of the AWS SDK. The outcome of the
  \<open>n\<close>-th HTTP request and of the \<open>n\<close>-th chain call may differ from call to call, so both
  take the number of calls made before.
\<close>

record env =
  sha256_hex :: "string \<Rightarrow> string"
  hmac_sha256 :: "string \<Rightarrow> string \<Rightarrow> string"
  hex_digest :: "string \<Rightarrow> string"
  json_text :: "jsval \<Rightarrow> string"
  utc :: "nat \<Rightarrow> utc_date"
  fetch :: "nat \<Rightarrow> http_request \<Rightarrow> error + string"
  fetch_ms :: "nat \<Rightarrow> nat"
  res_json :: "string \<Rightarrow> error + jsval"
  new_Contract :: "error + unit"
  getBlockNumber :: "nat \<Rightarrow> error + int"
  queryFilter :: "nat \<Rightarrow> int \<Rightarrow> int \<Rightarrow> error + event list"
  getBlock :: "nat \<Rightarrow> int \<Rightarrow> error + int option"
  getQueueAttributes :: "string \<Rightarrow> (string option \<times> string) + unit"

definition JSON_stringify :: "env \<Rightarrow> jsval \<Rightarrow> error + string" where
  "JSON_stringify e v =
     (if has_bigint v then Inl (TypeError ''Do not know how to serialize a BigInt'')
      else Inr (json_text e v))"

definition sleep :: "int \<Rightarrow> world \<Rightarrow> world" where
  "sleep d w = w\<lparr>clock := clock w + nat d, naps := naps w @ [d]\<rparr>"

section \<open>Configuration\<close>

text \<open>The interface \<open>SQSConfig\<close> and the module constant \<open>sqsConfig\<close> of sqs.service.ts.\<close>

record sqs_headers =
  target :: string
  contentType :: string

record sqs_credentials =
  accessKey :: string
  secretKey :: string
  region :: string

record SQSConfig =
  "method" :: string
  service :: string
  algorithm :: string
  host :: string
  headers :: sqs_headers
  credentials :: sqs_credentials

text \<open>
  The object \<open>awsConfig\<close> has the shape the README gives. A value that is absent
  (\<open>undefined\<close>) is \<open>None\<close>.
\<close>

record aws_credentials =
  ACCESS_KEY_ID :: "string option"
  SECRET_ACCESS_KEY :: "string option"

record AWS =
  REGION :: "string option"
  CREDENTIALS :: "aws_credentials option"
  SQS_QUEUE_URL :: "string option"

text \<open>
  The constants module is not among the sources; its values are parameters. The code reads
  each through \<open>Number\<close> or unary plus; the model takes them as integers.
\<close>

record constants =
  START_BLOCK :: int
  SCAN_WITH_SPACE_BLOCK :: int
  RETRY_DELAY :: int
  MAX_TRIES_BEFORE_RETRY :: int
  AWAIT_TIME_BEFORE_RETRY :: int
  AMOUNT_TO_MILLISECONDS :: int

text \<open>What a template literal renders for a value that may be undefined.\<close>

definition str :: "string option \<Rightarrow> string" where
  "str v = (case v of None \<Rightarrow> ''undefined'' | Some s \<Rightarrow> s)"

definition cfg_REGION :: "AWS option \<Rightarrow> string option" where
  "cfg_REGION awsConfig = (case awsConfig of None \<Rightarrow> None | Some aws \<Rightarrow> REGION aws)"

definition cfg_ACCESS_KEY_ID :: "AWS option \<Rightarrow> string option" where
  "cfg_ACCESS_KEY_ID awsConfig =
     (case awsConfig of
        None \<Rightarrow> None
      | Some aws \<Rightarrow> (case CREDENTIALS aws of None \<Rightarrow> None | Some cr \<Rightarrow> ACCESS_KEY_ID cr))"

definition cfg_SECRET_ACCESS_KEY :: "AWS option \<Rightarrow> string option" where
  "cfg_SECRET_ACCESS_KEY awsConfig =
     (case awsConfig of
        None \<Rightarrow> None
      | Some aws \<Rightarrow> (case CREDENTIALS aws of None \<Rightarrow> None | Some cr \<Rightarrow> SECRET_ACCESS_KEY cr))"

text \<open>
  The value of the module constant \<open>sqsConfig\<close> once sqs.service.ts has loaded. A missing
  region or key is kept as what a template literal renders for it; the worker signs only after
  \<open>validateAwsConfig\<close> has accepted the configuration, and then the region and both keys
  are non-empty strings.
\<close>

definition sqsConfig :: "AWS option \<Rightarrow> SQSConfig" where
  "sqsConfig awsConfig =
     \<lparr>method = ''POST'',
      service = ''sqs'',
      algorithm = ''AWS4-HMAC-SHA256'',
      host = ''sqs.'' @ str (cfg_REGION awsConfig) @ ''.amazonaws.com'',
      headers = \<lparr>target = ''AmazonSQS.SendMessage'',
                 contentType = ''application/x-amz-json-1.0''\<rparr>,
      credentials = \<lparr>accessKey = str (cfg_ACCESS_KEY_ID awsConfig),
                     secretKey = str (cfg_SECRET_ACCESS_KEY awsConfig),
                     region = str (cfg_REGION awsConfig)\<rparr>\<rparr>"

text \<open>
  Loading sqs.service.ts, which the entry file imports through the utilities and the message
  service: lines 11 and 17 read \<open>awsConfig.AWS.REGION\<close> and
  \<open>awsConfig.AWS.CREDENTIALS.ACCESS_KEY_ID\<close> while the constant is built, so a configuration
  without its \<open>AWS\<close> object or without its \<open>CREDENTIALS\<close> object throws a TypeError
  before any function of the worker runs.
\<close>

definition load_sqs_service :: "AWS option \<Rightarrow> error + SQSConfig" where
  "load_sqs_service awsConfig =
     (case awsConfig of
        None \<Rightarrow> Inl (TypeError ''Cannot read properties of undefined (reading REGION)'')
      | Some aws \<Rightarrow>
          (case CREDENTIALS aws of
             None \<Rightarrow>
               Inl (TypeError ''Cannot read properties of undefined (reading ACCESS_KEY_ID)'')
           | Some cr \<Rightarrow> Inr (sqsConfig awsConfig)))"

text \<open>The value of \<open>awsConfig.AWS.SQS_QUEUE_URL\<close> as \<open>sendMessage\<close> reads it.\<close>

definition queue_url :: "AWS option \<Rightarrow> jsval" where
  "queue_url awsConfig =
     (case awsConfig of
        None \<Rightarrow> JUndefined
      | Some aws \<Rightarrow> (case SQS_QUEUE_URL aws of None \<Rightarrow> JUndefined | Some u \<Rightarrow> JStr u))"

section \<open>Signer\<close>

text \<open>\<open>String(n)\<close> for a number that is an integer: its decimal digits, with a sign.\<close>

fun decimal_digits :: "nat \<Rightarrow> nat list" where
  "decimal_digits n = (if n < 10 then [n] else decimal_digits (n div 10) @ [n mod 10])"

definition digit_char :: "nat \<Rightarrow> char" where
  "digit_char d = ''0123456789'' ! d"

definition String_of_nat :: "nat \<Rightarrow> string" where
  "String_of_nat n = map digit_char (decimal_digits n)"

definition String_of_int :: "int \<Rightarrow> string" where
  "String_of_int i =
     (if 0 \<le> i then String_of_nat (nat i) else CHR ''-'' # String_of_nat (nat (- i)))"

definition padStart2 :: "string \<Rightarrow> string" where
  "padStart2 s = replicate (2 - length s) (CHR ''0'') @ s"

text \<open>Lines 29 to 37 of \<open>sendMessageToSQS\<close>: the timestamp and its date part.\<close>

definition amzDate_of :: "utc_date \<Rightarrow> string" where
  "amzDate_of now =
     (let year = String_of_nat (getUTCFullYear now);
          month = padStart2 (String_of_nat (getUTCMonth now + 1));
          day = padStart2 (String_of_nat (getUTCDate now));
          hours = padStart2 (String_of_nat (getUTCHours now));
          minutes = padStart2 (String_of_nat (getUTCMinutes now));
          seconds = padStart2 (String_of_nat (getUTCSeconds now))
      in year @ month @ day @ ''T'' @ hours @ minutes @ seconds @ ''Z'')"

definition dateStamp_of :: "string \<Rightarrow> string" where
  "dateStamp_of amzDate = take 8 amzDate"

definition createCanonicalRequest ::
  "env \<Rightarrow> SQSConfig \<Rightarrow> string \<Rightarrow> string \<Rightarrow> jsval \<Rightarrow> string \<Rightarrow> error + string" where
  "createCanonicalRequest e cfg meth hst payload amzDate =
     (let canonicalUri = ''/'';
          canonicalQuerystring = '''';
          canonicalHeaders =
            ''content-type:'' @ contentType (headers cfg) @ ''\<newline>host:'' @ hst
            @ ''\<newline>x-amz-date:'' @ amzDate
            @ ''\<newline>x-amz-target:'' @ target (headers cfg) @ ''\<newline>'';
          signedHeaders = ''content-type;host;x-amz-date;x-amz-target''
      in case JSON_stringify e payload of
           Inl err \<Rightarrow> Inl err
         | Inr text \<Rightarrow>
             (let payloadHash = sha256_hex e text
              in Inr (meth @ ''\<newline>'' @ canonicalUri @ ''\<newline>'' @ canonicalQuerystring
                      @ ''\<newline>'' @ canonicalHeaders @ ''\<newline>'' @ signedHeaders
                      @ ''\<newline>'' @ payloadHash)))"

definition createStringToSign :: "env \<Rightarrow> SQSConfig \<Rightarrow> string \<Rightarrow> string \<Rightarrow> string \<Rightarrow> string" where
  "createStringToSign e cfg amzDate dateStamp canonicalRequest =
     (let credentialScope =
            dateStamp @ ''/'' @ region (credentials cfg) @ ''/'' @ service cfg @ ''/aws4_request'';
          hashCanonicalRequest = sha256_hex e canonicalRequest
      in algorithm cfg @ ''\<newline>'' @ amzDate @ ''\<newline>'' @ credentialScope
         @ ''\<newline>'' @ hashCanonicalRequest)"

definition getSignatureKey :: "env \<Rightarrow> string \<Rightarrow> string \<Rightarrow> string \<Rightarrow> string \<Rightarrow> string" where
  "getSignatureKey e key dateStamp regionName serviceName =
     (let kDate = hmac_sha256 e (''AWS4'' @ key) dateStamp;
          kRegion = hmac_sha256 e kDate regionName;
          kService = hmac_sha256 e kRegion serviceName;
          kSigning = hmac_sha256 e kService ''aws4_request''
      in kSigning)"

definition calculateAuthParam :: "env \<Rightarrow> SQSConfig \<Rightarrow> string \<Rightarrow> string \<Rightarrow> string" where
  "calculateAuthParam e cfg dateStamp stringToSign =
     (let signingKey = getSignatureKey e (secretKey (credentials cfg)) dateStamp
                         (region (credentials cfg)) (service cfg);
          signature = hex_digest e (hmac_sha256 e signingKey stringToSign);
          signedHeaders = ''content-type;host;x-amz-date;x-amz-target'';
          credentialScope =
            dateStamp @ ''/'' @ region (credentials cfg) @ ''/'' @ service cfg @ ''/aws4_request''
      in algorithm cfg @ '' Credential='' @ accessKey (credentials cfg) @ ''/'' @ credentialScope
         @ '', SignedHeaders='' @ signedHeaders @ '', Signature='' @ signature)"

text \<open>
  Lines 39 to 48 of \<open>sendMessageToSQS\<close>: the Authorization header for a payload and a
  timestamp, or the error \<open>JSON.stringify\<close> throws inside \<open>createCanonicalRequest\<close>.
\<close>

definition authorizationHeader_of :: "env \<Rightarrow> SQSConfig \<Rightarrow> jsval \<Rightarrow> string \<Rightarrow> error + string" where
  "authorizationHeader_of e cfg payload amzDate =
     (let dateStamp = dateStamp_of amzDate
      in case createCanonicalRequest e cfg (method cfg) (host cfg) payload amzDate of
           Inl err \<Rightarrow> Inl err
         | Inr canonicalRequest \<Rightarrow>
             (let stringToSign = createStringToSign e cfg amzDate dateStamp canonicalRequest
              in Inr (calculateAuthParam e cfg dateStamp stringToSign)))"

subsection \<open>The reference algorithm of the specification\<close>

text \<open>
  The inputs section 4.1 of the specification lists (the payload in its serialized form, the
  timestamp already formatted), with the algorithm name and the two fixed header values.
\<close>

record signer_input =
  httpMethod :: string
  hostName :: string
  canonicalPayload :: string
  timestamp :: string
  secretAccessKey :: string
  accessKeyId :: string
  regionName :: string
  serviceName :: string
  ALGO :: string
  contentTypeValue :: string
  targetValue :: string

text \<open>The steps 2 to 6 of section 4.1, written from its words.\<close>

definition spec_canonical_request :: "env \<Rightarrow> signer_input \<Rightarrow> string" where
  "spec_canonical_request e i =
     httpMethod i @ ''\<newline>/\<newline>\<newline>content-type:'' @ contentTypeValue i
     @ ''\<newline>host:'' @ hostName i
     @ ''\<newline>x-amz-date:'' @ timestamp i @ ''\<newline>x-amz-target:'' @ targetValue i
     @ ''\<newline>\<newline>content-type;host;x-amz-date;x-amz-target\<newline>''
     @ sha256_hex e (canonicalPayload i)"

definition spec_string_to_sign :: "env \<Rightarrow> signer_input \<Rightarrow> string" where
  "spec_string_to_sign e i =
     ALGO i @ ''\<newline>'' @ timestamp i @ ''\<newline>'' @ take 8 (timestamp i) @ ''/''
     @ regionName i @ ''/'' @ serviceName i
     @ ''/aws4_request\<newline>'' @ sha256_hex e (spec_canonical_request e i)"

definition spec_signing_key :: "env \<Rightarrow> signer_input \<Rightarrow> string" where
  "spec_signing_key e i =
     (let kDate = hmac_sha256 e (''AWS4'' @ secretAccessKey i) (take 8 (timestamp i));
          kRegion = hmac_sha256 e kDate (regionName i);
          kService = hmac_sha256 e kRegion (serviceName i)
      in hmac_sha256 e kService ''aws4_request'')"

definition spec_authorization :: "env \<Rightarrow> signer_input \<Rightarrow> string" where
  "spec_authorization e i =
     ALGO i @ '' Credential='' @ accessKeyId i @ ''/'' @ take 8 (timestamp i) @ ''/''
     @ regionName i @ ''/'' @ serviceName i
     @ ''/aws4_request, SignedHeaders=content-type;host;x-amz-date;x-amz-target, Signature=''
     @ hex_digest e (hmac_sha256 e (spec_signing_key e i) (spec_string_to_sign e i))"

text \<open>The inputs of the reference algorithm as the code supplies them.\<close>

definition signer_input_of :: "SQSConfig \<Rightarrow> string \<Rightarrow> string \<Rightarrow> signer_input" where
  "signer_input_of cfg payload_json amzDate =
     \<lparr>httpMethod = method cfg,
      hostName = host cfg,
      canonicalPayload = payload_json,
      timestamp = amzDate,
      secretAccessKey = secretKey (credentials cfg),
      accessKeyId = accessKey (credentials cfg),
      regionName = region (credentials cfg),
      serviceName = service cfg,
      ALGO = algorithm cfg,
      contentTypeValue = contentType (headers cfg),
      targetValue = target (headers cfg)\<rparr>"

section \<open>Delivery Client\<close>

text \<open>
  Lines 53 to 63 of \<open>sendMessageToSQS\<close>: one \<open>fetch\<close> and the decoding of its response.
  The request is recorded with the clock reading at which it leaves.
\<close>

definition attempt_fetch :: "env \<Rightarrow> http_request \<Rightarrow> world \<Rightarrow> (error + jsval) \<times> world" where
  "attempt_fetch e req w =
     (let n = length (requests w);
          w' = w\<lparr>clock := clock w + fetch_ms e n, requests := requests w @ [(clock w, req)]\<rparr>
      in case fetch e n req of
           Inl err \<Rightarrow> (Inl err, w')
         | Inr res \<Rightarrow> (res_json e res, w'))"

text \<open>
  The \<open>for\<close> loop of lines 51 to 73. The result \<open>None\<close> is the \<open>undefined\<close> the function
  returns when the loop ends without a \<open>return\<close>.
\<close>

function retry_loop ::
  "env \<Rightarrow> constants \<Rightarrow> SQSConfig \<Rightarrow> jsval \<Rightarrow> string \<Rightarrow> string \<Rightarrow> int \<Rightarrow> world
     \<Rightarrow> jsval option \<times> world" where
  "retry_loop e c cfg payload amzDate authorizationHeader idx w =
     (if idx < MAX_TRIES_BEFORE_RETRY c then
        (case (case JSON_stringify e payload of
                 Inl err \<Rightarrow> (Inl err, w)
               | Inr text \<Rightarrow>
                   attempt_fetch e
                     \<lparr>url = ''https://'' @ host cfg,
                      http_method = method cfg,
                      X_Amz_Date = amzDate,
                      X_Amz_Target = target (headers cfg),
                      Content_Type = contentType (headers cfg),
                      Authorization = authorizationHeader,
                      body = text\<rparr> w) of
           (Inr v, w') \<Rightarrow> (Some v, w')
         | (Inl err, w') \<Rightarrow>
             retry_loop e c cfg payload amzDate authorizationHeader (idx + 1)
               (if idx < MAX_TRIES_BEFORE_RETRY c - 1
                then sleep (AWAIT_TIME_BEFORE_RETRY c) w' else w'))
      else (None, w))"
  by pat_completeness auto
termination
  by (relation "measure (\<lambda>(e, c, cfg, payload, amzDate, authorizationHeader, idx, w).
                  nat (MAX_TRIES_BEFORE_RETRY c - idx))") auto

definition sendMessageToSQS ::
  "env \<Rightarrow> constants \<Rightarrow> SQSConfig \<Rightarrow> jsval \<Rightarrow> world \<Rightarrow> (error + jsval option) \<times> world" where
  "sendMessageToSQS e c cfg payload w =
     (let now = utc e (clock w);
          amzDate = amzDate_of now
      in case authorizationHeader_of e cfg payload amzDate of
           Inl err \<Rightarrow> (Inl err, w)
         | Inr authorizationHeader \<Rightarrow>
             (case retry_loop e c cfg payload amzDate authorizationHeader 0 w of
                (res, w') \<Rightarrow> (Inr res, w')))"

section \<open>Message Publisher\<close>

text \<open>Lines 21 to 28 of \<open>sendMessage\<close>: the object whose serialization is the message body.\<close>

definition message_object :: "string \<Rightarrow> jsval \<Rightarrow> string \<Rightarrow> int \<Rightarrow> int \<Rightarrow> int \<Rightarrow> jsval" where
  "message_object messageEventType objectData txHash txIndex lgIndex blockNo =
     JObj [(''type'', JStr messageEventType),
           (''msg'', objectData),
           (''txHash'', JStr txHash),
           (''txIndex'', JNum (of_int txIndex)),
           (''logIndex'', JNum (of_int lgIndex)),
           (''blockNumber'', JNum (of_int blockNo))]"

text \<open>Lines 47 to 52: the payload handed to the Delivery Client.\<close>

definition queue_payload :: "jsval \<Rightarrow> string \<Rightarrow> string \<Rightarrow> int \<Rightarrow> int \<Rightarrow> jsval" where
  "queue_payload queueUrl message txHash txIndex lgIndex =
     JObj [(''QueueUrl'', queueUrl),
           (''MessageBody'', JStr message),
           (''MessageGroupId'',
              JStr (txHash @ ''/'' @ String_of_int txIndex @ ''/'' @ String_of_int lgIndex)),
           (''MessageDeduplicationId'',
              JStr (txHash @ ''/'' @ String_of_int txIndex @ ''/'' @ String_of_int lgIndex))]"

text \<open>
  \<open>sendMessage\<close>. The serialization of line 21 stands before the \<open>try\<close> of line 30, so what
  it throws leaves the function; what the \<open>try\<close> block throws is caught and logged.
\<close>

definition sendMessage ::
  "env \<Rightarrow> constants \<Rightarrow> SQSConfig \<Rightarrow> jsval \<Rightarrow> string \<Rightarrow> jsval \<Rightarrow> string \<Rightarrow> int \<Rightarrow> int \<Rightarrow> int \<Rightarrow> world
     \<Rightarrow> (error + unit) \<times> world" where
  "sendMessage e c cfg queueUrl messageEventType objectData txHash txIndex lgIndex blockNo w =
     (case JSON_stringify e
             (message_object messageEventType objectData txHash txIndex lgIndex blockNo) of
        Inl err \<Rightarrow> (Inl err, w)
      | Inr message \<Rightarrow>
          (let payload = queue_payload queueUrl message txHash txIndex lgIndex
           in case sendMessageToSQS e c cfg payload w of
                (Inl err, w') \<Rightarrow> (Inr (), w')
              | (Inr res, w') \<Rightarrow> (Inr (), w')))"

section \<open>Event Transformer\<close>

definition TOKEN_MIGRATED :: string where
  "TOKEN_MIGRATED = ''TokenMigrated''"

text \<open>\<open>String.prototype.toUpperCase\<close> on the ASCII letters; other bytes are kept.\<close>

definition toUpperCase :: "string \<Rightarrow> string" where
  "toUpperCase s =
     map (\<lambda>ch. if (97::nat) \<le> of_char ch \<and> of_char ch \<le> (122::nat)
               then char_of (of_char ch - (32::nat)) else ch) s"

text \<open>
  \<open>Number(ethers.utils.formatEther(x.toString()))\<close>: \<open>formatEther\<close> prints the exact decimal
  quotient of the base-unit integer by ten to the eighteenth, and \<open>Number\<close> reads it back. The
  model keeps the exact quotient; JavaScript keeps the double nearest to it, which is the
  quotient itself whenever that is a double.
\<close>

definition ether_number :: "int \<Rightarrow> rat" where
  "ether_number wei = of_int wei / 10 ^ 18"

text \<open>
  Lines 187 to 194 of \<open>processEvent\<close>: the object \<open>migrationData\<close>, its properties evaluated
  in order. A method call on a missing argument, or reading the timestamp of a block the node
  does not know (\<open>null\<close>), throws a TypeError.
\<close>

definition migrationData_of :: "constants \<Rightarrow> EventArgs \<Rightarrow> event \<Rightarrow> int option \<Rightarrow> error + jsval" where
  "migrationData_of c a ev blockData =
     (case token a of
        None \<Rightarrow> Inl (TypeError ''token is undefined'')
      | Some tk \<Rightarrow>
     (case pairAddress a of
        None \<Rightarrow> Inl (TypeError ''pairAddress is undefined'')
      | Some pr \<Rightarrow>
     (case amountToken a of
        None \<Rightarrow> Inl (TypeError ''amountToken is undefined'')
      | Some amtToken \<Rightarrow>
     (case amountETH a of
        None \<Rightarrow> Inl (TypeError ''amountETH is undefined'')
      | Some amtETH \<Rightarrow>
     (case blockData of
        None \<Rightarrow> Inl (TypeError ''blockData is null'')
      | Some blockTimestamp \<Rightarrow>
          Inr (JObj [(''tokenAddress'', JStr (toUpperCase tk)),
                     (''poolId'', JStr (toUpperCase pr)),
                     (''amountToken'', JNum (ether_number amtToken)),
                     (''amountETH'', JNum (ether_number amtETH)),
                     (''timestamp'', JNum (of_int (blockTimestamp * AMOUNT_TO_MILLISECONDS c))),
                     (''transactionHash'', JStr (transactionHash ev))]))))))"

definition processEvent ::
  "env \<Rightarrow> constants \<Rightarrow> SQSConfig \<Rightarrow> jsval \<Rightarrow> event \<Rightarrow> world \<Rightarrow> (error + unit) \<times> world" where
  "processEvent e c cfg queueUrl ev w =
     (case args ev of
        None \<Rightarrow> (Inl (TypeError ''event.args is undefined''), w)
      | Some a \<Rightarrow>
          (let n = length (rpc_calls w);
               w1 = w\<lparr>rpc_calls := rpc_calls w @ [GetBlock (blockNumber ev)]\<rparr>
           in case getBlock e n (blockNumber ev) of
                Inl err \<Rightarrow> (Inl err, w1)
              | Inr blockData \<Rightarrow>
                  (case migrationData_of c a ev blockData of
                     Inl err \<Rightarrow> (Inl err, w1)
                   | Inr migrationData \<Rightarrow>
                       sendMessage e c cfg queueUrl TOKEN_MIGRATED migrationData
                         (transactionHash ev) (transactionIndex ev) (logIndex ev)
                         (blockNumber ev) w1)))"

section \<open>Configuration check\<close>

definition VALID_AWS_REGIONS :: "string list" where
  "VALID_AWS_REGIONS =
     [''us-east-1'', ''us-east-2'', ''us-west-1'', ''us-west-2'',
      ''ap-south-1'', ''ap-northeast-1'', ''ap-northeast-2'', ''ap-northeast-3'',
      ''ap-southeast-1'', ''ap-southeast-2'',
      ''eu-central-1'', ''eu-west-1'', ''eu-west-2'', ''eu-west-3'',
      ''sa-east-1'']"

text \<open>The negation \<open>!x\<close> of a value that is a string or undefined.\<close>

definition falsy :: "string option \<Rightarrow> bool" where
  "falsy v = (case v of None \<Rightarrow> True | Some s \<Rightarrow> s = [])"

definition validateAwsConfig :: "env \<Rightarrow> AWS option \<Rightarrow> error + unit" where
  "validateAwsConfig e awsConfig =
     (case awsConfig of
        None \<Rightarrow> Inl (ConfigError ''CONFIG_NOT_FOUND'' ''AWS configuration not found'')
      | Some aws \<Rightarrow>
          if falsy (REGION aws)
          then Inl (ConfigError ''REGION_INVALID'' ''AWS Region is required'')
          else if \<not> List.member VALID_AWS_REGIONS (str (REGION aws))
          then Inl (ConfigError ''REGION_INVALID''
                 ''Invalid region in config. Please use a valid AWS region (e.g., us-east-1, ap-southeast-1)'')
          else if falsy (cfg_ACCESS_KEY_ID awsConfig) \<or> falsy (cfg_SECRET_ACCESS_KEY awsConfig)
          then Inl (ConfigError ''CREDENTIALS_MISSING''
                 ''AWS Credentials (ACCESS_KEY_ID and SECRET_ACCESS_KEY) are required'')
          else if falsy (SQS_QUEUE_URL aws)
          then Inl (ConfigError ''QUEUE_URL_MISSING'' ''SQS Queue URL is required'')
          else (case getQueueAttributes e (str (SQS_QUEUE_URL aws)) of
                  Inl (code, message) \<Rightarrow>
                    Inl (ConfigError (if falsy code then ''AWS_SERVICE_ERROR'' else str code)
                           message)
                | Inr u \<Rightarrow> Inr ()))"

section \<open>Scan Loop\<close>

record ProcessingContext =
  fromBlock :: int
  toBlock :: int
  eventCount :: nat
  processedCount :: nat
  failedCount :: nat

text \<open>The \<open>for\<close> loop of lines 63 to 78 of \<open>scanTokenMigratedEvents\<close>.\<close>

fun process_events ::
  "env \<Rightarrow> constants \<Rightarrow> SQSConfig \<Rightarrow> jsval \<Rightarrow> event list \<Rightarrow> ProcessingContext \<Rightarrow> world
     \<Rightarrow> ProcessingContext \<times> world" where
  "process_events e c cfg queueUrl [] context w = (context, w)"
| "process_events e c cfg queueUrl (ev # events) context w =
     (case processEvent e c cfg queueUrl ev w of
        (Inr u, w') \<Rightarrow>
          process_events e c cfg queueUrl events
            (context\<lparr>processedCount := processedCount context + 1\<rparr>) w'
      | (Inl eventError, w') \<Rightarrow>
          process_events e c cfg queueUrl events
            (context\<lparr>failedCount := failedCount context + 1\<rparr>) w')"

text \<open>
  The \<open>try\<close> block of lines 48 to 91: the window bound, the log query, the events, the pause.
  Its result is the context as it stands when the block ends, or what the block throws.
\<close>

definition window_try ::
  "env \<Rightarrow> constants \<Rightarrow> SQSConfig \<Rightarrow> jsval \<Rightarrow> int \<Rightarrow> ProcessingContext \<Rightarrow> world
     \<Rightarrow> (error + ProcessingContext) \<times> world" where
  "window_try e c cfg queueUrl currentBlock context w =
     (let context1 =
            context\<lparr>toBlock := min (fromBlock context + SCAN_WITH_SPACE_BLOCK c) currentBlock\<rparr>;
          n = length (rpc_calls w);
          w1 = w\<lparr>rpc_calls :=
                   rpc_calls w @ [QueryFilter (fromBlock context1) (toBlock context1)]\<rparr>
      in case queryFilter e n (fromBlock context1) (toBlock context1) of
           Inl rangeError \<Rightarrow> (Inl rangeError, w1)
         | Inr events \<Rightarrow>
             (case process_events e c cfg queueUrl events
                     (context1\<lparr>eventCount := length events\<rparr>) w1 of
                (context2, w2) \<Rightarrow> (Inr context2, sleep (RETRY_DELAY c) w2)))"

text \<open>
  One turn of the \<open>while\<close> loop, lines 40 to 99: the value of \<open>fromBlock\<close> after it and the
  world after it. The \<open>catch\<close> of line 92 leaves \<open>fromBlock\<close> alone.
\<close>

definition scan_iteration ::
  "env \<Rightarrow> constants \<Rightarrow> SQSConfig \<Rightarrow> jsval \<Rightarrow> int \<Rightarrow> int \<Rightarrow> world \<Rightarrow> int \<times> world" where
  "scan_iteration e c cfg queueUrl currentBlock fromBlock0 w =
     (case window_try e c cfg queueUrl currentBlock
             \<lparr>fromBlock = fromBlock0, toBlock = 0, eventCount = 0, processedCount = 0,
              failedCount = 0\<rparr> w of
        (Inr context, w') \<Rightarrow> (toBlock context + 1, w')
      | (Inl rangeError, w') \<Rightarrow> (fromBlock0, sleep (RETRY_DELAY c * 2) w'))"

text \<open>
  The \<open>while\<close> loop of line 39, run for at most \<open>fuel\<close> turns. The result \<open>None\<close> says the
  loop is still running when the fuel is spent; \<open>Some\<close> says it has ended.
\<close>

fun scan_loop ::
  "nat \<Rightarrow> env \<Rightarrow> constants \<Rightarrow> SQSConfig \<Rightarrow> jsval \<Rightarrow> int \<Rightarrow> int \<Rightarrow> world \<Rightarrow> unit option \<times> world" where
  "scan_loop 0 e c cfg queueUrl currentBlock fromBlock0 w =
     (if fromBlock0 < currentBlock then (None, w) else (Some (), w))"
| "scan_loop (Suc fuel) e c cfg queueUrl currentBlock fromBlock0 w =
     (if fromBlock0 < currentBlock
      then (case scan_iteration e c cfg queueUrl currentBlock fromBlock0 w of
              (fromBlock1, w') \<Rightarrow> scan_loop fuel e c cfg queueUrl currentBlock fromBlock1 w')
      else (Some (), w))"

text \<open>
  \<open>scanTokenMigratedEvents\<close>: \<open>Some (Inr ())\<close> when the promise resolves, \<open>Some (Inl err)\<close>
  when it rejects with \<open>err\<close> (the outer \<open>catch\<close> of line 106 logs and throws again),
  \<open>None\<close> while the loop is still running.
\<close>

definition scanTokenMigratedEvents ::
  "nat \<Rightarrow> env \<Rightarrow> constants \<Rightarrow> AWS option \<Rightarrow> world \<Rightarrow> (error + unit) option \<times> world" where
  "scanTokenMigratedEvents fuel e c awsConfig w =
     (case validateAwsConfig e awsConfig of
        Inl err \<Rightarrow> (Some (Inr ()), w)
      | Inr u \<Rightarrow>
          (case new_Contract e of
             Inl err \<Rightarrow> (Some (Inl err), w)
           | Inr u1 \<Rightarrow>
               (let n = length (rpc_calls w);
                    w1 = w\<lparr>rpc_calls := rpc_calls w @ [GetBlockNumber]\<rparr>
                in case getBlockNumber e n of
                     Inl err \<Rightarrow> (Some (Inl err), w1)
                   | Inr currentBlock \<Rightarrow>
                       (case scan_loop fuel e c (sqsConfig awsConfig) (queue_url awsConfig)
                               currentBlock (START_BLOCK c) w1 of
                          (None, w') \<Rightarrow> (None, w')
                        | (Some u2, w') \<Rightarrow> (Some (Inr ()), w')))))"

text \<open>
  The exit status of the process. The imports run first: when sqs.service.ts throws while it
  loads, the exception is uncaught and node ends with status 1 before the entry of lines 122 to
  132 is reached. Otherwise a rejection of \<open>scanTokenMigratedEvents\<close> reaches
  \<open>process.exit(1)\<close>, and when the promise resolves nothing sets a status and node ends
  with 0.
\<close>

definition exit_status :: "nat \<Rightarrow> env \<Rightarrow> constants \<Rightarrow> AWS option \<Rightarrow> world \<Rightarrow> nat option" where
  "exit_status fuel e c awsConfig w =
     (case load_sqs_service awsConfig of
        Inl err \<Rightarrow> Some 1
      | Inr cfg \<Rightarrow>
          (case fst (scanTokenMigratedEvents fuel e c awsConfig w) of
             None \<Rightarrow> None
           | Some (Inl err) \<Rightarrow> Some 1
           | Some (Inr u) \<Rightarrow> Some 0))"

section \<open>Observations on runs\<close>

text \<open>
  Every attempt of the Delivery Client throws: each \<open>fetch\<close> rejects, or the response it
  returns does not decode.
\<close>

definition every_attempt_throws :: "env \<Rightarrow> bool" where
  "every_attempt_throws e =
     (\<forall>n req. case fetch e n req of Inl err \<Rightarrow> True | Inr res \<Rightarrow> isl (res_json e res))"

text \<open>
  The requests \<open>sent\<close>, the first of them being request number \<open>n\<close>, account for the
  result \<open>r\<close> of a delivery: every request but the last threw (its \<open>fetch\<close> rejected or
  its response did not decode); the last one threw as well and the result is \<open>undefined\<close>,
  or it was answered and the result is its decoded body.
\<close>

fun accounts_for :: "env \<Rightarrow> nat \<Rightarrow> (nat \<times> http_request) list \<Rightarrow> jsval option \<Rightarrow> bool" where
  "accounts_for e n [] r = (r = None)"
| "accounts_for e n ((t, req) # sent) r =
     (case fetch e n req of
        Inl err \<Rightarrow> accounts_for e (Suc n) sent r
      | Inr res \<Rightarrow>
          (case res_json e res of
             Inl err \<Rightarrow> accounts_for e (Suc n) sent r
           | Inr v \<Rightarrow> sent = [] \<and> r = Some v))"

text \<open>How often the chain head has been read.\<close>

definition head_reads :: "world \<Rightarrow> nat" where
  "head_reads w = count_list (rpc_calls w) GetBlockNumber"

section \<open>Concrete scenarios\<close>

text \<open>
  A deployment on which runs are evaluated. The three digests are stand-ins that keep their
  arguments visible, the serializer prints a fixed text, the clock shows the first minute of a
  day, every HTTP request is answered, and the chain holds no matching log. The scenarios below
  change one collaborator each.
\<close>

definition demo_date :: "nat \<Rightarrow> utc_date" where
  "demo_date t =
     \<lparr>getUTCFullYear = 2024, getUTCMonth = 0, getUTCDate = 1, getUTCHours = 0,
      getUTCMinutes = 0, getUTCSeconds = (t div 1000) mod 60\<rparr>"

definition demo_env :: env where
  "demo_env =
     \<lparr>sha256_hex = (\<lambda>s. ''sha256('' @ s @ '')''),
      hmac_sha256 = (\<lambda>k m. ''hmac('' @ k @ '','' @ m @ '')''),
      hex_digest = (\<lambda>b. ''hex('' @ b @ '')''),
      json_text = (\<lambda>v. ''{}''),
      utc = demo_date,
      fetch = (\<lambda>n req. Inr ''{}''),
      fetch_ms = (\<lambda>n. 0),
      res_json = (\<lambda>s. Inr (JObj [])),
      new_Contract = Inr (),
      getBlockNumber = (\<lambda>n. Inr 120),
      queryFilter = (\<lambda>n f t. Inr []),
      getBlock = (\<lambda>n b. Inr (Some 1700000000)),
      getQueueAttributes = (\<lambda>u. Inr ())\<rparr>"

definition demo_constants :: constants where
  "demo_constants =
     \<lparr>START_BLOCK = 100, SCAN_WITH_SPACE_BLOCK = 50, RETRY_DELAY = 1000,
      MAX_TRIES_BEFORE_RETRY = 3, AWAIT_TIME_BEFORE_RETRY = 2000,
      AMOUNT_TO_MILLISECONDS = 1000\<rparr>"

definition config_with ::
  "string option \<Rightarrow> string option \<Rightarrow> string option \<Rightarrow> string option \<Rightarrow> AWS option" where
  "config_with rgn keyId secret queue =
     Some \<lparr>REGION = rgn,
           CREDENTIALS = Some \<lparr>ACCESS_KEY_ID = keyId, SECRET_ACCESS_KEY = secret\<rparr>,
           SQS_QUEUE_URL = queue\<rparr>"

definition demo_awsConfig :: "AWS option" where
  "demo_awsConfig =
     config_with (Some ''us-east-1'') (Some ''AKID'') (Some ''secret'')
       (Some ''https://sqs.us-east-1.amazonaws.com/1/q.fifo'')"

definition world0 :: world where
  "world0 = \<lparr>clock = 0, requests = [], rpc_calls = [], naps = []\<rparr>"

definition fresh_context :: "int \<Rightarrow> ProcessingContext" where
  "fresh_context fromBlock0 =
     \<lparr>fromBlock = fromBlock0, toBlock = 0, eventCount = 0, processedCount = 0,
      failedCount = 0\<rparr>"

text \<open>The raw event of the end-to-end scenario of the specification, and its message.\<close>

definition example_event :: event where
  "example_event =
     \<lparr>args = Some \<lparr>token = Some ''0xabc'', pairAddress = Some ''0xdef'',
                   amountToken = Some 2000000000000000000,
                   amountETH = Some 1000000000000000000\<rparr>,
      blockNumber = 42, transactionHash = ''0x1'', transactionIndex = 0, logIndex = 0\<rparr>"

definition example_message :: jsval where
  "example_message =
     JObj [(''tokenAddress'', JStr ''0XABC''),
           (''poolId'', JStr ''0XDEF''),
           (''amountToken'', JNum 2),
           (''amountETH'', JNum 1),
           (''timestamp'', JNum 1700000000000),
           (''transactionHash'', JStr ''0x1'')]"

definition demo_payload :: jsval where
  "demo_payload = queue_payload (queue_url demo_awsConfig) ''{}'' ''0x1'' 0 0"

text \<open>The first HTTP request fails and the second is answered.\<close>

definition first_fetch_fails :: env where
  "first_fetch_fails =
     demo_env\<lparr>fetch := (\<lambda>n req. if n = 0 then Inl (Error ''ECONNRESET'') else Inr ''{}'')\<rparr>"

definition retried_delivery :: world where
  "retried_delivery =
     snd (sendMessageToSQS first_fetch_fails demo_constants (sqsConfig demo_awsConfig)
            demo_payload world0)"

text \<open>
  The first HTTP request fails; the second is answered with a text that decodes to an object
  holding it.
\<close>

definition acknowledged_env :: env where
  "acknowledged_env =
     demo_env\<lparr>fetch := (\<lambda>n req. if n = 0 then Inl (Error ''ECONNRESET'') else Inr ''m-1''),
               res_json := (\<lambda>s. Inr (JObj [(''MessageId'', JStr s)]))\<rparr>"

text \<open>No HTTP request is ever answered.\<close>

definition every_fetch_fails :: env where
  "every_fetch_fails = demo_env\<lparr>fetch := (\<lambda>n req. Inl (Error ''ECONNRESET''))\<rparr>"

text \<open>No HTTP request is ever answered, and the log query returns the example event.\<close>

definition undeliverable_env :: env where
  "undeliverable_env =
     demo_env\<lparr>fetch := (\<lambda>n req. Inl (Error ''ECONNRESET'')),
               queryFilter := (\<lambda>n f t. Inr [example_event])\<rparr>"

text \<open>The queue probe fails; the chain head cannot be read; the log query always throws.\<close>

definition unreachable_queue_env :: env where
  "unreachable_queue_env =
     demo_env\<lparr>getQueueAttributes := (\<lambda>u. Inl (Some ''NetworkingError'', ''getaddrinfo ENOTFOUND''))\<rparr>"

definition head_fails_env :: env where
  "head_fails_env = demo_env\<lparr>getBlockNumber := (\<lambda>n. Inl (Error ''could not detect network''))\<rparr>"

definition query_fails_env :: env where
  "query_fails_env = demo_env\<lparr>queryFilter := (\<lambda>n f t. Inl (Error ''timeout''))\<rparr>"

text \<open>The log query returns an event without arguments followed by the example event.\<close>

definition two_events_env :: env where
  "two_events_env =
     demo_env\<lparr>queryFilter := (\<lambda>n f t. Inr [example_event\<lparr>args := None\<rparr>, example_event])\<rparr>"

section \<open>Properties of the Signer\<close>

lemma getSignatureKey_chain:
  "getSignatureKey e key dateStamp rgn srv =
     hmac_sha256 e
       (hmac_sha256 e (hmac_sha256 e (hmac_sha256 e (''AWS4'' @ key) dateStamp) rgn) srv)
       ''aws4_request''"
  by (simp add: getSignatureKey_def)

lemma createCanonicalRequest_spec:
  "createCanonicalRequest e cfg (method cfg) (host cfg) payload ts =
     (case JSON_stringify e payload of
        Inl err \<Rightarrow> Inl err
      | Inr text \<Rightarrow> Inr (spec_canonical_request e (signer_input_of cfg text ts)))"
  by (simp add: createCanonicalRequest_def spec_canonical_request_def signer_input_of_def
      split: sum.splits)

lemma createStringToSign_spec:
  "createStringToSign e cfg ts (take 8 ts)
       (spec_canonical_request e (signer_input_of cfg text ts)) =
     spec_string_to_sign e (signer_input_of cfg text ts)"
  by (simp add: createStringToSign_def spec_string_to_sign_def signer_input_of_def)

lemma calculateAuthParam_spec:
  "calculateAuthParam e cfg (take 8 ts) (spec_string_to_sign e (signer_input_of cfg text ts)) =
     spec_authorization e (signer_input_of cfg text ts)"
  by (simp add: calculateAuthParam_def getSignatureKey_chain spec_authorization_def
      spec_signing_key_def signer_input_of_def)

text \<open>
  C8. For every method, host, payload, timestamp, secret key, access key id, region and
  service, the Authorization header the code computes is the one of the reference algorithm:
  the signing key is the chain of four HMAC-SHA256 applications starting from
  "AWS4" followed by the secret key, the signature is the hex form of the HMAC of the string to
  sign (built over the canonical request) under that key, and the header has the fixed
  Credential, SignedHeaders, Signature layout. The result is a function of these inputs alone.
  When the payload cannot be serialized the error of the serializer is the result.
\<close>

theorem signer_matches_reference:
  "getSignatureKey e key dateStamp rgn srv =
     hmac_sha256 e
       (hmac_sha256 e (hmac_sha256 e (hmac_sha256 e (''AWS4'' @ key) dateStamp) rgn) srv)
       ''aws4_request''
   \<and> authorizationHeader_of e cfg payload ts =
     (case JSON_stringify e payload of
        Inl err \<Rightarrow> Inl err
      | Inr payload_json \<Rightarrow> Inr (spec_authorization e (signer_input_of cfg payload_json ts)))"
proof -
  have hdr: "authorizationHeader_of e cfg payload ts =
     (case JSON_stringify e payload of
        Inl err \<Rightarrow> Inl err
      | Inr payload_json \<Rightarrow> Inr (spec_authorization e (signer_input_of cfg payload_json ts)))"
    by (simp add: authorizationHeader_of_def dateStamp_of_def createCanonicalRequest_spec
        createStringToSign_spec calculateAuthParam_spec split: sum.splits)
  show ?thesis
    using hdr by (simp add: getSignatureKey_chain)
qed

section \<open>Properties of the Delivery Client\<close>

declare retry_loop.simps [simp del]

lemma sleep_fields [simp]:
  "requests (sleep d w) = requests w"
  "rpc_calls (sleep d w) = rpc_calls w"
  "naps (sleep d w) = naps w @ [d]"
  "clock (sleep d w) = clock w + nat d"
  by (simp_all add: sleep_def)

lemma attempt_fetch_world:
  "snd (attempt_fetch e req w) =
     w\<lparr>clock := clock w + fetch_ms e (length (requests w)),
       requests := requests w @ [(clock w, req)]\<rparr>"
  by (simp add: attempt_fetch_def Let_def split: sum.splits)

lemma retry_loop_rpc_calls:
  "rpc_calls (snd (retry_loop e c cfg payload amzDate auth idx w)) = rpc_calls w"
proof (induction e c cfg payload amzDate auth idx w rule: retry_loop.induct)
  case (1 e c cfg payload amzDate auth idx w)
  show ?case
    apply (subst retry_loop.simps)
    using 1
    apply (auto simp: attempt_fetch_def Let_def split: sum.splits prod.splits if_splits)
    done
qed

lemma retry_loop_requests:
  "\<exists>new. requests (snd (retry_loop e c cfg payload amzDate auth idx w)) = requests w @ new
     \<and> (\<forall>(t, req) \<in> set new. X_Amz_Date req = amzDate \<and> Authorization req = auth)"
proof (induction e c cfg payload amzDate auth idx w rule: retry_loop.induct)
  case (1 e c cfg payload amzDate auth idx w)
  show ?case
    apply (subst retry_loop.simps)
    using 1
    apply (auto simp: attempt_fetch_def Let_def split: sum.splits prod.splits if_splits)
    done
qed

lemma attempt_fetch_throws:
  "every_attempt_throws e \<Longrightarrow> isl (fst (attempt_fetch e req w))"
  unfolding every_attempt_throws_def attempt_fetch_def Let_def
  by (metis (mono_tags, lifting) fst_conv isl_def sum.case_eq_if sum.collapse(2) sum.disc(1))

lemma retry_loop_exhausted:
  "every_attempt_throws e \<Longrightarrow> JSON_stringify e payload = Inr text \<Longrightarrow>
     fst (retry_loop e c cfg payload amzDate auth idx w) = None
     \<and> length (requests (snd (retry_loop e c cfg payload amzDate auth idx w))) =
         length (requests w) + nat (MAX_TRIES_BEFORE_RETRY c - idx)"
proof (induction e c cfg payload amzDate auth idx w rule: retry_loop.induct)
  case (1 e c cfg payload amzDate auth idx w)
  show ?case
  proof (cases "idx < MAX_TRIES_BEFORE_RETRY c")
    case False
    then show ?thesis by (subst retry_loop.simps, subst (2) retry_loop.simps) simp
  next
    case True
    let ?req = "\<lparr>url = ''https://'' @ host cfg, http_method = method cfg, X_Amz_Date = amzDate,
                 X_Amz_Target = target (headers cfg), Content_Type = contentType (headers cfg),
                 Authorization = auth, body = text\<rparr>"
    obtain err w' where a: "attempt_fetch e ?req w = (Inl err, w')"
      using attempt_fetch_throws [OF "1.prems"(1), of ?req w]
      by (metis isl_def prod.collapse)
    have w': "requests w' = requests w @ [(clock w, ?req)]"
      using attempt_fetch_world [of e ?req w] a by simp
    have step: "(Inl err, w') =
        (case JSON_stringify e payload of
           Inl err \<Rightarrow> (Inl err, w)
         | Inr t \<Rightarrow>
             attempt_fetch e
               \<lparr>url = ''https://'' @ host cfg, http_method = method cfg, X_Amz_Date = amzDate,
                X_Amz_Target = target (headers cfg), Content_Type = contentType (headers cfg),
                Authorization = auth, body = t\<rparr> w)"
      using a "1.prems"(2) by simp
    note IH = "1.IH" [OF True step refl "1.prems"]
    have unfold: "retry_loop e c cfg payload amzDate auth idx w =
        retry_loop e c cfg payload amzDate auth (idx + 1)
          (if idx < MAX_TRIES_BEFORE_RETRY c - 1
           then sleep (AWAIT_TIME_BEFORE_RETRY c) w' else w')"
      using a by (subst retry_loop.simps) (simp add: True "1.prems"(2))
    have len: "length (requests (if idx < MAX_TRIES_BEFORE_RETRY c - 1
           then sleep (AWAIT_TIME_BEFORE_RETRY c) w' else w')) = length (requests w) + 1"
      by (simp add: w')
    show ?thesis
      using IH True unfolding unfold len by (simp add: nat_diff_distrib' )
  qed
qed

lemma sendMessageToSQS_unfold:
  "sendMessageToSQS e c cfg payload w =
     (case authorizationHeader_of e cfg payload (amzDate_of (utc e (clock w))) of
        Inl err \<Rightarrow> (Inl err, w)
      | Inr auth \<Rightarrow>
          (Inr (fst (retry_loop e c cfg payload (amzDate_of (utc e (clock w))) auth 0 w)),
           snd (retry_loop e c cfg payload (amzDate_of (utc e (clock w))) auth 0 w)))"
  by (simp add: sendMessageToSQS_def Let_def split: sum.splits prod.splits)

lemma authorizationHeader_of_serializable:
  "JSON_stringify e payload = Inr text \<Longrightarrow>
     authorizationHeader_of e cfg payload ts =
       Inr (spec_authorization e (signer_input_of cfg text ts))"
  by (simp add: authorizationHeader_of_def dateStamp_of_def createCanonicalRequest_spec
      createStringToSign_spec calculateAuthParam_spec)

lemma retry_loop_no_tries:
  "MAX_TRIES_BEFORE_RETRY c \<le> idx \<Longrightarrow>
     retry_loop e c cfg payload amzDate auth idx w = (None, w)"
  by (subst retry_loop.simps) simp

lemma demo_payload_serializable:
  "JSON_stringify every_fetch_fails demo_payload = Inr ''{}''"
  by code_simp

lemma every_fetch_fails_throws: "every_attempt_throws every_fetch_fails"
  by (simp add: every_attempt_throws_def every_fetch_fails_def demo_env_def)

lemma attempt_fetch_result:
  "fst (attempt_fetch e req w) =
     (case fetch e (length (requests w)) req of
        Inl err \<Rightarrow> Inl err
      | Inr res \<Rightarrow> res_json e res)"
  by (simp add: attempt_fetch_def Let_def split: sum.splits)

lemma retry_loop_outcome:
  assumes ser: "JSON_stringify e payload = Inr text"
  shows "\<exists>sent. requests (snd (retry_loop e c cfg payload amzDate auth idx w)) =
                  requests w @ sent
     \<and> length sent \<le> nat (MAX_TRIES_BEFORE_RETRY c - idx)
     \<and> accounts_for e (length (requests w)) sent
          (fst (retry_loop e c cfg payload amzDate auth idx w))
     \<and> (fst (retry_loop e c cfg payload amzDate auth idx w) = None \<longrightarrow>
          length sent = nat (MAX_TRIES_BEFORE_RETRY c - idx))"
  using ser
proof (induction e c cfg payload amzDate auth idx w rule: retry_loop.induct)
  case (1 e c cfg payload amzDate auth idx w)
  show ?case
  proof (cases "idx < MAX_TRIES_BEFORE_RETRY c")
    case False
    then have "retry_loop e c cfg payload amzDate auth idx w = (None, w)"
      by (simp add: retry_loop_no_tries)
    then show ?thesis using False by simp
  next
    case True
    let ?req = "\<lparr>url = ''https://'' @ host cfg, http_method = method cfg, X_Amz_Date = amzDate,
                 X_Amz_Target = target (headers cfg), Content_Type = contentType (headers cfg),
                 Authorization = auth, body = text\<rparr>"
    obtain r w1 where a: "attempt_fetch e ?req w = (r, w1)"
      by (meson surj_pair)
    have w1: "requests w1 = requests w @ [(clock w, ?req)]"
      using attempt_fetch_world [of e ?req w] a by simp
    have r: "r = (case fetch e (length (requests w)) ?req of
                    Inl err \<Rightarrow> Inl err | Inr res \<Rightarrow> res_json e res)"
      using attempt_fetch_result [of e ?req w] a by simp
    show ?thesis
    proof (cases r)
      case (Inr v)
      have loop: "retry_loop e c cfg payload amzDate auth idx w = (Some v, w1)"
        using a Inr by (subst retry_loop.simps) (simp add: True "1.prems")
      have "accounts_for e (length (requests w)) [(clock w, ?req)] (Some v)"
        using r Inr by (auto split: sum.splits)
      then have one: "accounts_for e (length (requests w)) [(clock w, ?req)]
          (fst (retry_loop e c cfg payload amzDate auth idx w))"
        by (simp add: loop)
      have eq: "requests (snd (retry_loop e c cfg payload amzDate auth idx w)) =
          requests w @ [(clock w, ?req)]"
        by (simp add: loop w1)
      have len: "length [(clock w, ?req)] \<le> nat (MAX_TRIES_BEFORE_RETRY c - idx)"
        using True by simp
      have full: "fst (retry_loop e c cfg payload amzDate auth idx w) = None \<longrightarrow>
          length [(clock w, ?req)] = nat (MAX_TRIES_BEFORE_RETRY c - idx)"
        by (simp add: loop)
      show ?thesis
        apply (rule exI [of _ "[(clock w, ?req)]"])
        apply (intro conjI)
           apply (rule eq)
          apply (rule len)
         apply (rule one)
        apply (rule full)
        done
    next
      case (Inl err)
      let ?w2 = "if idx < MAX_TRIES_BEFORE_RETRY c - 1
                 then sleep (AWAIT_TIME_BEFORE_RETRY c) w1 else w1"
      have step: "(Inl err, w1) =
          (case JSON_stringify e payload of
             Inl err \<Rightarrow> (Inl err, w)
           | Inr t \<Rightarrow>
               attempt_fetch e
                 \<lparr>url = ''https://'' @ host cfg, http_method = method cfg, X_Amz_Date = amzDate,
                  X_Amz_Target = target (headers cfg), Content_Type = contentType (headers cfg),
                  Authorization = auth, body = t\<rparr> w)"
        using a Inl "1.prems" by simp
      have loop: "retry_loop e c cfg payload amzDate auth idx w =
          retry_loop e c cfg payload amzDate auth (idx + 1) ?w2"
        using a Inl by (subst retry_loop.simps) (simp add: True "1.prems")
      from "1.IH" [OF True step refl "1.prems"]
      obtain sent where all:
        "requests (snd (retry_loop e c cfg payload amzDate auth (idx + 1) ?w2)) =
           requests ?w2 @ sent
         \<and> length sent \<le> nat (MAX_TRIES_BEFORE_RETRY c - (idx + 1))
         \<and> accounts_for e (length (requests ?w2)) sent
              (fst (retry_loop e c cfg payload amzDate auth (idx + 1) ?w2))
         \<and> (fst (retry_loop e c cfg payload amzDate auth (idx + 1) ?w2) = None \<longrightarrow>
              length sent = nat (MAX_TRIES_BEFORE_RETRY c - (idx + 1)))" ..
      note ih = conjunct1 [OF all] conjunct1 [OF conjunct2 [OF all]]
        conjunct1 [OF conjunct2 [OF conjunct2 [OF all]]]
        conjunct2 [OF conjunct2 [OF conjunct2 [OF all]]]
      have w2: "requests ?w2 = requests w @ [(clock w, ?req)]"
        using w1 by simp
      have first: "accounts_for e (length (requests w)) ((clock w, ?req) # sent)
          (fst (retry_loop e c cfg payload amzDate auth (idx + 1) ?w2))"
        using ih(3) r Inl unfolding w2 by (auto split: sum.splits)
      have len: "length ((clock w, ?req) # sent) \<le> nat (MAX_TRIES_BEFORE_RETRY c - idx)"
        using ih(2) True by simp
      have full: "fst (retry_loop e c cfg payload amzDate auth (idx + 1) ?w2) = None \<longrightarrow>
          length ((clock w, ?req) # sent) = nat (MAX_TRIES_BEFORE_RETRY c - idx)"
        using ih(4) True by auto
      have eq: "requests (snd (retry_loop e c cfg payload amzDate auth (idx + 1) ?w2)) =
          requests w @ ((clock w, ?req) # sent)"
        unfolding ih(1) w2 by simp
      show ?thesis
        unfolding loop
        apply (rule exI [of _ "(clock w, ?req) # sent"])
        apply (intro conjI)
           apply (rule eq)
          apply (rule len)
         apply (rule first)
        apply (rule full)
        done
    qed
  qed
qed

lemma acknowledged_payload_serializable:
  "JSON_stringify acknowledged_env demo_payload = Inr ''{}''"
  by code_simp

text \<open>
  C10. For every payload that \<open>JSON.stringify\<close> accepts, \<open>sendMessageToSQS\<close> does not
  throw, whatever \<open>fetch\<close> and the response decoder do: it returns a decoded response body or
  \<open>undefined\<close>. When the maximum attempt count is zero or negative it returns \<open>undefined\<close>
  and leaves the world as it was, so no request is sent; when every attempt throws it returns
  the same \<open>undefined\<close> after as many requests as the attempt count. In every run the
  requests the call sent account for its result: each request before the last threw, and the
  result is the decoded body of the last request when that one was answered, and \<open>undefined\<close>
  when it threw too, which happens only after all the attempts the count allows.
\<close>

theorem sendMessageToSQS_never_throws:
  assumes "JSON_stringify e payload = Inr text"
  shows "(\<exists>res. fst (sendMessageToSQS e c cfg payload w) = Inr res)
    \<and> (MAX_TRIES_BEFORE_RETRY c \<le> 0 \<longrightarrow>
         sendMessageToSQS e c cfg payload w = (Inr None, w))
    \<and> (every_attempt_throws e \<longrightarrow>
         fst (sendMessageToSQS e c cfg payload w) = Inr None
         \<and> length (requests (snd (sendMessageToSQS e c cfg payload w))) =
             length (requests w) + nat (MAX_TRIES_BEFORE_RETRY c))
    \<and> (\<exists>res sent.
          fst (sendMessageToSQS e c cfg payload w) = Inr res
          \<and> requests (snd (sendMessageToSQS e c cfg payload w)) = requests w @ sent
          \<and> length sent \<le> nat (MAX_TRIES_BEFORE_RETRY c)
          \<and> accounts_for e (length (requests w)) sent res
          \<and> (res = None \<longrightarrow> length sent = nat (MAX_TRIES_BEFORE_RETRY c)))"
proof -
  note auth = authorizationHeader_of_serializable [OF assms]
  let ?loop = "retry_loop e c cfg payload (amzDate_of (utc e (clock w)))
      (spec_authorization e (signer_input_of cfg text (amzDate_of (utc e (clock w))))) 0 w"
  have run: "sendMessageToSQS e c cfg payload w = (Inr (fst ?loop), snd ?loop)"
    by (simp add: sendMessageToSQS_unfold auth)
  have returns: "\<exists>res. fst (sendMessageToSQS e c cfg payload w) = Inr res"
    by (simp add: run)
  have none: "sendMessageToSQS e c cfg payload w = (Inr None, w)"
    if "MAX_TRIES_BEFORE_RETRY c \<le> 0"
    using that by (simp add: run retry_loop_no_tries)
  have exhausted: "fst (sendMessageToSQS e c cfg payload w) = Inr None
      \<and> length (requests (snd (sendMessageToSQS e c cfg payload w))) =
          length (requests w) + nat (MAX_TRIES_BEFORE_RETRY c)"
    if "every_attempt_throws e"
    using retry_loop_exhausted [OF that assms, of c cfg _ _ 0 w]
    by (simp add: run)
  from retry_loop_outcome [OF assms, of c cfg "amzDate_of (utc e (clock w))"
      "spec_authorization e (signer_input_of cfg text (amzDate_of (utc e (clock w))))" 0 w]
  obtain sent where out:
    "requests (snd ?loop) = requests w @ sent
     \<and> length sent \<le> nat (MAX_TRIES_BEFORE_RETRY c - 0)
     \<and> accounts_for e (length (requests w)) sent (fst ?loop)
     \<and> (fst ?loop = None \<longrightarrow> length sent = nat (MAX_TRIES_BEFORE_RETRY c - 0))" ..
  have outcome: "\<exists>res sent.
          fst (sendMessageToSQS e c cfg payload w) = Inr res
          \<and> requests (snd (sendMessageToSQS e c cfg payload w)) = requests w @ sent
          \<and> length sent \<le> nat (MAX_TRIES_BEFORE_RETRY c)
          \<and> accounts_for e (length (requests w)) sent res
          \<and> (res = None \<longrightarrow> length sent = nat (MAX_TRIES_BEFORE_RETRY c))"
    apply (rule exI [of _ "fst ?loop"])
    apply (rule exI [of _ sent])
    using out apply (simp add: run)
    done
  show ?thesis
    apply (intro conjI impI)
         apply (rule returns)
        apply (erule none)
       apply (erule exhausted [THEN conjunct1])
      apply (erule exhausted [THEN conjunct2])
    apply (rule outcome)
    done
qed

theorem sendMessageToSQS_never_throws_witness:
  "sendMessageToSQS every_fetch_fails (demo_constants\<lparr>MAX_TRIES_BEFORE_RETRY := 0\<rparr>)
       (sqsConfig demo_awsConfig) demo_payload world0 = (Inr None, world0)
   \<and> fst (sendMessageToSQS every_fetch_fails demo_constants (sqsConfig demo_awsConfig)
            demo_payload world0) = Inr None
   \<and> length (requests (snd (sendMessageToSQS every_fetch_fails demo_constants
                               (sqsConfig demo_awsConfig) demo_payload world0))) = 3
   \<and> fst (sendMessageToSQS acknowledged_env demo_constants (sqsConfig demo_awsConfig)
            demo_payload world0) = Inr (Some (JObj [(''MessageId'', JStr ''m-1'')]))
   \<and> length (requests (snd (sendMessageToSQS acknowledged_env demo_constants
                               (sqsConfig demo_awsConfig) demo_payload world0))) = 2
   \<and> (\<exists>res sent.
          fst (sendMessageToSQS acknowledged_env demo_constants (sqsConfig demo_awsConfig)
                 demo_payload world0) = Inr res
          \<and> requests (snd (sendMessageToSQS acknowledged_env demo_constants
                               (sqsConfig demo_awsConfig) demo_payload world0)) =
              requests world0 @ sent
          \<and> accounts_for acknowledged_env (length (requests world0)) sent res)"
proof -
  have zero: "MAX_TRIES_BEFORE_RETRY (demo_constants\<lparr>MAX_TRIES_BEFORE_RETRY := 0\<rparr>) \<le> 0"
    by simp
  have three: "nat (MAX_TRIES_BEFORE_RETRY demo_constants) = 3"
    by (simp add: demo_constants_def)
  have start: "length (requests world0) = 0"
    by (simp add: world0_def)
  have answered: "fst (sendMessageToSQS acknowledged_env demo_constants
      (sqsConfig demo_awsConfig) demo_payload world0) =
      Inr (Some (JObj [(''MessageId'', JStr ''m-1'')]))"
    by code_simp
  have two: "length (requests (snd (sendMessageToSQS acknowledged_env demo_constants
      (sqsConfig demo_awsConfig) demo_payload world0))) = 2"
    by code_simp
  have fails: "sendMessageToSQS every_fetch_fails (demo_constants\<lparr>MAX_TRIES_BEFORE_RETRY := 0\<rparr>)
       (sqsConfig demo_awsConfig) demo_payload world0 = (Inr None, world0)
   \<and> fst (sendMessageToSQS every_fetch_fails demo_constants (sqsConfig demo_awsConfig)
            demo_payload world0) = Inr None
   \<and> length (requests (snd (sendMessageToSQS every_fetch_fails demo_constants
                               (sqsConfig demo_awsConfig) demo_payload world0))) = 3"
    using sendMessageToSQS_never_throws [OF demo_payload_serializable,
        of "demo_constants\<lparr>MAX_TRIES_BEFORE_RETRY := 0\<rparr>" "sqsConfig demo_awsConfig" world0]
      sendMessageToSQS_never_throws [OF demo_payload_serializable,
        of demo_constants "sqsConfig demo_awsConfig" world0]
      zero every_fetch_fails_throws three start
    by simp
  have accounted: "\<exists>res sent.
          fst (sendMessageToSQS acknowledged_env demo_constants (sqsConfig demo_awsConfig)
                 demo_payload world0) = Inr res
          \<and> requests (snd (sendMessageToSQS acknowledged_env demo_constants
                               (sqsConfig demo_awsConfig) demo_payload world0)) =
              requests world0 @ sent
          \<and> accounts_for acknowledged_env (length (requests world0)) sent res"
    using sendMessageToSQS_never_throws [OF acknowledged_payload_serializable,
        of demo_constants "sqsConfig demo_awsConfig" world0]
    by meson
  show ?thesis
    using fails answered two accounted by simp
qed

text \<open>
  C2 as stated fails. In the run where the first request fails and the second is answered, the
  second request leaves at clock reading 2000, where the clock shows 20240101T000002Z, and
  carries the X-Amz-Date 20240101T000000Z and the Authorization value of the first request.
\<close>

theorem retry_reuses_first_signature:
  "length (requests retried_delivery) = 2
   \<and> fst (requests retried_delivery ! 1) = 2000
   \<and> amzDate_of (utc first_fetch_fails 2000) = ''20240101T000002Z''
   \<and> X_Amz_Date (snd (requests retried_delivery ! 1)) = ''20240101T000000Z''
   \<and> Authorization (snd (requests retried_delivery ! 1)) =
       Authorization (snd (requests retried_delivery ! 0))"
  by code_simp

text \<open>
  C2, amended. The timestamp is read once, when \<open>sendMessageToSQS\<close> is entered, and the
  Authorization value is computed once from it before the retry loop: every request the call
  sends, on every attempt, carries the X-Amz-Date of the clock reading at entry and the
  Authorization value signed for that timestamp.
\<close>

theorem signature_fixed_at_entry:
  assumes "sendMessageToSQS e c cfg payload w = (res, w')"
  shows "\<exists>new. requests w' = requests w @ new
    \<and> (\<forall>(t, req) \<in> set new.
          X_Amz_Date req = amzDate_of (utc e (clock w))
          \<and> authorizationHeader_of e cfg payload (amzDate_of (utc e (clock w))) =
              Inr (Authorization req))"
proof (cases "authorizationHeader_of e cfg payload (amzDate_of (utc e (clock w)))")
  case (Inl err)
  then have "w' = w"
    using assms by (simp add: sendMessageToSQS_unfold)
  then show ?thesis by simp
next
  case (Inr auth)
  then have w': "w' = snd (retry_loop e c cfg payload (amzDate_of (utc e (clock w))) auth 0 w)"
    using assms by (auto simp: sendMessageToSQS_unfold)
  show ?thesis
    using retry_loop_requests [of e c cfg payload "amzDate_of (utc e (clock w))" auth 0 w]
    unfolding w' Inr by auto
qed

theorem signature_fixed_at_entry_witness:
  "length (requests retried_delivery) = length (requests world0) + 2
   \<and> (\<exists>new. requests retried_delivery = requests world0 @ new
      \<and> (\<forall>(t, req) \<in> set new.
            X_Amz_Date req = amzDate_of (utc first_fetch_fails (clock world0))
            \<and> authorizationHeader_of first_fetch_fails (sqsConfig demo_awsConfig) demo_payload
                  (amzDate_of (utc first_fetch_fails (clock world0))) =
                Inr (Authorization req)))"
proof -
  have run: "sendMessageToSQS first_fetch_fails demo_constants (sqsConfig demo_awsConfig)
        demo_payload world0 = (Inr (Some (JObj [])), retried_delivery)"
    by code_simp
  have len: "length (requests retried_delivery) = length (requests world0) + 2"
    by code_simp
  show ?thesis
    using signature_fixed_at_entry [OF run] len by simp
qed

section \<open>Properties of the Message Publisher and the Event Transformer\<close>

lemma sendMessageToSQS_rpc_calls:
  "rpc_calls (snd (sendMessageToSQS e c cfg payload w)) = rpc_calls w"
  by (simp add: sendMessageToSQS_unfold retry_loop_rpc_calls split: sum.splits)

lemma sendMessage_rpc_calls:
  "rpc_calls (snd (sendMessage e c cfg q t d h i l b w)) = rpc_calls w"
  using sendMessageToSQS_rpc_calls
  by (auto simp: sendMessage_def Let_def split: sum.splits prod.splits) (metis snd_conv)+

lemma sendMessage_result:
  "fst (sendMessage e c cfg q t d h i l b w) =
     (case JSON_stringify e (message_object t d h i l b) of
        Inl err \<Rightarrow> Inl err
      | Inr message \<Rightarrow> Inr ())"
  by (simp add: sendMessage_def Let_def split: sum.splits prod.splits)

lemma has_bigint_message_object:
  "has_bigint (message_object t d h i l b) = has_bigint d"
  by (simp add: message_object_def)

lemma migrationData_of_serializable:
  "migrationData_of c a ev blockData = Inr m \<Longrightarrow> \<not> has_bigint m"
  by (auto simp: migrationData_of_def split: option.splits)

lemma processEvent_result:
  "fst (processEvent e c cfg q ev w) =
     (case args ev of
        None \<Rightarrow> Inl (TypeError ''event.args is undefined'')
      | Some a \<Rightarrow>
          (case getBlock e (length (rpc_calls w)) (blockNumber ev) of
             Inl err \<Rightarrow> Inl err
           | Inr blockData \<Rightarrow>
               (case migrationData_of c a ev blockData of
                  Inl err \<Rightarrow> Inl err
                | Inr m \<Rightarrow> Inr ())))"
  using migrationData_of_serializable
  by (auto simp: processEvent_def Let_def sendMessage_result JSON_stringify_def
      has_bigint_message_object split: option.splits sum.splits)

lemma processEvent_rpc_calls:
  "rpc_calls (snd (processEvent e c cfg q ev w)) =
     rpc_calls w @ (case args ev of None \<Rightarrow> [] | Some a \<Rightarrow> [GetBlock (blockNumber ev)])"
  by (simp add: processEvent_def Let_def sendMessage_rpc_calls split: option.splits sum.splits)

lemma processEvent_head_reads:
  "head_reads (snd (processEvent e c cfg q ev w)) = head_reads w"
  by (simp add: head_reads_def processEvent_rpc_calls split: option.splits)

lemma toUpperCase_examples:
  "toUpperCase ''0xabc'' = ''0XABC''" "toUpperCase ''0xdef'' = ''0XDEF''"
  by code_simp+

lemma String_of_int_0: "String_of_int 0 = ''0''"
  by code_simp

lemma example_transform:
  "migrationData_of (c\<lparr>AMOUNT_TO_MILLISECONDS := 1000\<rparr>)
       \<lparr>token = Some ''0xabc'', pairAddress = Some ''0xdef'',
        amountToken = Some 2000000000000000000, amountETH = Some 1000000000000000000\<rparr>
       example_event (Some 1700000000) = Inr example_message"
  by (simp add: migrationData_of_def toUpperCase_examples ether_number_def example_event_def
      example_message_def)

lemma example_envelope:
  "queue_payload q message ''0x1'' 0 0 =
     JObj [(''QueueUrl'', q),
           (''MessageBody'', JStr message),
           (''MessageGroupId'', JStr ''0x1/0/0''),
           (''MessageDeduplicationId'', JStr ''0x1/0/0'')]"
  by (simp add: queue_payload_def String_of_int_0)

lemma example_message_serializable: "\<not> has_bigint example_message"
  by (simp add: example_message_def)

text \<open>
  C3 at an input on which it fails. The data object \<open>{amount: 1n}\<close> cannot be serialized, the
  serialization of the message body stands before the \<open>try\<close> block of \<open>sendMessage\<close>, and
  the TypeError leaves the function.
\<close>

theorem sendMessage_throws_on_bigint:
  "sendMessage e c cfg q TOKEN_MIGRATED (JObj [(''amount'', JBigInt 1)]) ''0x1'' 0 0 42 w =
     (Inl (TypeError ''Do not know how to serialize a BigInt''), w)"
  by (simp add: sendMessage_def JSON_stringify_def message_object_def)

text \<open>
  C9. The raw event of the scenario, with block timestamp 1700000000 and a factor of 1000 from
  seconds to milliseconds, is transformed into the message with the addresses in upper case,
  the amounts 2 and 1 and the timestamp 1700000000000 (the code names that field
  \<open>timestamp\<close>); and \<open>processEvent\<close> hands the Delivery Client an envelope whose
  MessageGroupId and MessageDeduplicationId are both "0x1/0/0" and whose body is the
  serialization of that message with the event's coordinates.
\<close>

theorem end_to_end_example:
  "migrationData_of (c\<lparr>AMOUNT_TO_MILLISECONDS := 1000\<rparr>)
       \<lparr>token = Some ''0xabc'', pairAddress = Some ''0xdef'',
        amountToken = Some 2000000000000000000, amountETH = Some 1000000000000000000\<rparr>
       example_event (Some 1700000000) =
     Inr (JObj [(''tokenAddress'', JStr ''0XABC''),
                (''poolId'', JStr ''0XDEF''),
                (''amountToken'', JNum 2),
                (''amountETH'', JNum 1),
                (''timestamp'', JNum 1700000000000),
                (''transactionHash'', JStr ''0x1'')])
   \<and> (getBlock e (length (rpc_calls w)) 42 = Inr (Some 1700000000) \<longrightarrow>
        processEvent e (c\<lparr>AMOUNT_TO_MILLISECONDS := 1000\<rparr>) cfg q example_event w =
          (Inr (),
           snd (sendMessageToSQS e (c\<lparr>AMOUNT_TO_MILLISECONDS := 1000\<rparr>) cfg
                  (JObj [(''QueueUrl'', q),
                         (''MessageBody'',
                            JStr (json_text e
                              (JObj [(''type'', JStr ''TokenMigrated''),
                                     (''msg'', example_message),
                                     (''txHash'', JStr ''0x1''),
                                     (''txIndex'', JNum 0),
                                     (''logIndex'', JNum 0),
                                     (''blockNumber'', JNum 42)]))),
                         (''MessageGroupId'', JStr ''0x1/0/0''),
                         (''MessageDeduplicationId'', JStr ''0x1/0/0'')])
                  (w\<lparr>rpc_calls := rpc_calls w @ [GetBlock 42]\<rparr>))))"
proof -
  have t: "migrationData_of (c\<lparr>AMOUNT_TO_MILLISECONDS := 1000\<rparr>)
       \<lparr>token = Some ''0xabc'', pairAddress = Some ''0xdef'',
        amountToken = Some 2000000000000000000, amountETH = Some 1000000000000000000\<rparr>
       example_event (Some 1700000000) = Inr example_message"
    by (rule example_transform)
  have ev: "args example_event =
      Some \<lparr>token = Some ''0xabc'', pairAddress = Some ''0xdef'',
        amountToken = Some 2000000000000000000, amountETH = Some 1000000000000000000\<rparr>"
    "blockNumber example_event = 42" "transactionHash example_event = ''0x1''"
    "transactionIndex example_event = 0" "logIndex example_event = 0"
    by (simp_all add: example_event_def)
  have p: "processEvent e (c\<lparr>AMOUNT_TO_MILLISECONDS := 1000\<rparr>) cfg q example_event w =
      sendMessage e (c\<lparr>AMOUNT_TO_MILLISECONDS := 1000\<rparr>) cfg q TOKEN_MIGRATED example_message
        ''0x1'' 0 0 42 (w\<lparr>rpc_calls := rpc_calls w @ [GetBlock 42]\<rparr>)"
    if "getBlock e (length (rpc_calls w)) 42 = Inr (Some 1700000000)"
    using that by (simp add: processEvent_def Let_def ev t)
  have s: "sendMessage e c' cfg q TOKEN_MIGRATED example_message ''0x1'' 0 0 42 w' =
      (Inr (),
       snd (sendMessageToSQS e c' cfg
              (JObj [(''QueueUrl'', q),
                     (''MessageBody'',
                        JStr (json_text e
                          (JObj [(''type'', JStr ''TokenMigrated''),
                                 (''msg'', example_message),
                                 (''txHash'', JStr ''0x1''),
                                 (''txIndex'', JNum 0),
                                 (''logIndex'', JNum 0),
                                 (''blockNumber'', JNum 42)]))),
                     (''MessageGroupId'', JStr ''0x1/0/0''),
                     (''MessageDeduplicationId'', JStr ''0x1/0/0'')]) w'))" for c' w'
    by (simp add: sendMessage_def JSON_stringify_def has_bigint_message_object
        example_message_serializable example_envelope Let_def message_object_def
        TOKEN_MIGRATED_def split: prod.splits sum.splits)
  show ?thesis
    using t p s by (simp add: example_message_def)
qed

theorem end_to_end_example_witness:
  "fst (processEvent demo_env (demo_constants\<lparr>AMOUNT_TO_MILLISECONDS := 1000\<rparr>)
          (sqsConfig demo_awsConfig) (queue_url demo_awsConfig) example_event world0) = Inr ()
   \<and> getBlock demo_env (length (rpc_calls world0)) 42 = Inr (Some 1700000000)"
proof -
  have h: "getBlock demo_env (length (rpc_calls world0)) 42 = Inr (Some 1700000000)"
    by (simp add: demo_env_def)
  show ?thesis
    using end_to_end_example [of demo_constants demo_env world0 "sqsConfig demo_awsConfig"
        "queue_url demo_awsConfig"] h
    by simp
qed

section \<open>Properties of the Scan Loop\<close>

lemma process_events_head_reads:
  "head_reads (snd (process_events e c cfg q events ctx w)) = head_reads w"
proof (induction events arbitrary: ctx w)
  case Nil
  then show ?case by simp
next
  case (Cons ev events)
  show ?case
    using Cons.IH processEvent_head_reads [of e c cfg q ev w]
    by (auto split: prod.splits sum.splits)
qed

lemma process_events_counts:
  "process_events e c cfg q events ctx w = (ctx', w') \<Longrightarrow>
     processedCount ctx' + failedCount ctx' =
       processedCount ctx + failedCount ctx + length events
     \<and> eventCount ctx' = eventCount ctx
     \<and> fromBlock ctx' = fromBlock ctx
     \<and> toBlock ctx' = toBlock ctx"
proof (induction events arbitrary: ctx w)
  case Nil
  then show ?case by simp
next
  case (Cons ev events)
  obtain r w1 where step: "processEvent e c cfg q ev w = (r, w1)"
    by (cases "processEvent e c cfg q ev w")
  show ?case
  proof (cases r)
    case (Inl err)
    then show ?thesis
      using step Cons.prems
        Cons.IH [of "ctx\<lparr>failedCount := failedCount ctx + 1\<rparr>" w1]
      by simp
  next
    case (Inr u)
    then show ?thesis
      using step Cons.prems
        Cons.IH [of "ctx\<lparr>processedCount := processedCount ctx + 1\<rparr>" w1]
      by simp
  qed
qed

lemma process_events_append:
  "process_events e c cfg q (pre @ post) ctx w =
     (case process_events e c cfg q pre ctx w of
        (c1, w1) \<Rightarrow> process_events e c cfg q post c1 w1)"
  by (induction pre arbitrary: ctx w) (auto split: prod.splits sum.splits)

lemma window_try_result:
  "window_try e c cfg q cur ctx w =
     (case queryFilter e (length (rpc_calls w)) (fromBlock ctx)
             (min (fromBlock ctx + SCAN_WITH_SPACE_BLOCK c) cur) of
        Inl err \<Rightarrow>
          (Inl err,
           w\<lparr>rpc_calls := rpc_calls w @
              [QueryFilter (fromBlock ctx) (min (fromBlock ctx + SCAN_WITH_SPACE_BLOCK c) cur)]\<rparr>)
      | Inr evs \<Rightarrow>
          (case process_events e c cfg q evs
                  (ctx\<lparr>toBlock := min (fromBlock ctx + SCAN_WITH_SPACE_BLOCK c) cur,
                       eventCount := length evs\<rparr>)
                  (w\<lparr>rpc_calls := rpc_calls w @
                     [QueryFilter (fromBlock ctx)
                        (min (fromBlock ctx + SCAN_WITH_SPACE_BLOCK c) cur)]\<rparr>) of
             (ctx2, w2) \<Rightarrow> (Inr ctx2, sleep (RETRY_DELAY c) w2)))"
  by (simp add: window_try_def Let_def split: sum.splits prod.splits)

lemma window_try_head_reads:
  "head_reads (snd (window_try e c cfg q cur ctx w)) = head_reads w"
proof (cases "queryFilter e (length (rpc_calls w)) (fromBlock ctx)
                (min (fromBlock ctx + SCAN_WITH_SPACE_BLOCK c) cur)")
  case (Inl err)
  then show ?thesis by (simp add: window_try_result head_reads_def)
next
  case (Inr evs)
  obtain ctx2 w2 where run: "process_events e c cfg q evs
      (ctx\<lparr>toBlock := min (fromBlock ctx + SCAN_WITH_SPACE_BLOCK c) cur,
           eventCount := length evs\<rparr>)
      (w\<lparr>rpc_calls := rpc_calls w @
         [QueryFilter (fromBlock ctx) (min (fromBlock ctx + SCAN_WITH_SPACE_BLOCK c) cur)]\<rparr>) =
      (ctx2, w2)"
    by (meson surj_pair)
  have "head_reads w2 = head_reads w"
    using process_events_head_reads [of e c cfg q evs
        "ctx\<lparr>toBlock := min (fromBlock ctx + SCAN_WITH_SPACE_BLOCK c) cur,
             eventCount := length evs\<rparr>"
        "w\<lparr>rpc_calls := rpc_calls w @
           [QueryFilter (fromBlock ctx) (min (fromBlock ctx + SCAN_WITH_SPACE_BLOCK c) cur)]\<rparr>"]
      run
    by (simp add: head_reads_def)
  then show ?thesis
    using Inr run by (simp add: window_try_result head_reads_def)
qed

lemma scan_iteration_head_reads:
  "head_reads (snd (scan_iteration e c cfg q cur fb w)) = head_reads w"
  using window_try_head_reads [of e c cfg q cur
      "\<lparr>fromBlock = fb, toBlock = 0, eventCount = 0, processedCount = 0, failedCount = 0\<rparr>" w]
  by (auto simp: scan_iteration_def head_reads_def split: prod.splits sum.splits)

lemma scan_loop_head_reads:
  "head_reads (snd (scan_loop k e c cfg q cur fb w)) = head_reads w"
proof (induction k arbitrary: fb w)
  case 0
  then show ?case by simp
next
  case (Suc k)
  show ?case
    using Suc.IH scan_iteration_head_reads [of e c cfg q cur fb w]
    by (auto split: prod.splits)
qed

lemma scan_iteration_failure:
  assumes "queryFilter e (length (rpc_calls w)) fb (min (fb + SCAN_WITH_SPACE_BLOCK c) cur) =
             Inl err"
  shows "scan_iteration e c cfg q cur fb w =
     (fb, w\<lparr>clock := clock w + nat (RETRY_DELAY c * 2),
            rpc_calls := rpc_calls w @
              [QueryFilter fb (min (fb + SCAN_WITH_SPACE_BLOCK c) cur)],
            naps := naps w @ [RETRY_DELAY c * 2]\<rparr>)"
  using assms by (simp add: scan_iteration_def window_try_result sleep_def)

lemma scan_loop_stuck:
  assumes "fb < cur"
    and "\<forall>n. isl (queryFilter e n fb (min (fb + SCAN_WITH_SPACE_BLOCK c) cur))"
  shows "scan_loop k e c cfg q cur fb w =
     (None, w\<lparr>clock := clock w + k * nat (RETRY_DELAY c * 2),
              rpc_calls := rpc_calls w @
                replicate k (QueryFilter fb (min (fb + SCAN_WITH_SPACE_BLOCK c) cur)),
              naps := naps w @ replicate k (RETRY_DELAY c * 2)\<rparr>)"
proof (induction k arbitrary: w)
  case 0
  then show ?case using assms(1) by simp
next
  case (Suc k)
  obtain err where "queryFilter e (length (rpc_calls w)) fb
      (min (fb + SCAN_WITH_SPACE_BLOCK c) cur) = Inl err"
    using assms(2) by (metis isl_def)
  note step = scan_iteration_failure [OF this, of cfg q]
  show ?case
    using assms(1) by (simp add: step Suc.IH replicate_append_same)
qed

lemma scan_reads_head_once:
  assumes "validateAwsConfig e awsConfig = Inr ()" and "new_Contract e = Inr ()"
  shows "head_reads (snd (scanTokenMigratedEvents fuel e c awsConfig w)) = head_reads w + 1"
proof (cases "getBlockNumber e (length (rpc_calls w))")
  case (Inl err)
  then show ?thesis
    using assms by (simp add: scanTokenMigratedEvents_def head_reads_def)
next
  case (Inr cur)
  have "head_reads (snd (scan_loop fuel e c (sqsConfig awsConfig) (queue_url awsConfig) cur
      (START_BLOCK c) (w\<lparr>rpc_calls := rpc_calls w @ [GetBlockNumber]\<rparr>))) = head_reads w + 1"
    by (simp add: scan_loop_head_reads) (simp add: head_reads_def)
  then show ?thesis
    using assms Inr
    by (auto simp: scanTokenMigratedEvents_def split: prod.splits option.splits)
qed

lemma exit_status_zero:
  assumes "exit_status fuel e c awsConfig w = Some 0"
  shows "isl (validateAwsConfig e awsConfig)
    \<or> (\<exists>cur. new_Contract e = Inr ()
          \<and> getBlockNumber e (length (rpc_calls w)) = Inr cur
          \<and> fst (scan_loop fuel e c (sqsConfig awsConfig) (queue_url awsConfig) cur
                 (START_BLOCK c) (w\<lparr>rpc_calls := rpc_calls w @ [GetBlockNumber]\<rparr>)) = Some ())"
proof (cases "validateAwsConfig e awsConfig")
  case (Inl err)
  then show ?thesis by simp
next
  case (Inr u)
  then show ?thesis
    using assms
    by (auto simp: exit_status_def scanTokenMigratedEvents_def Let_def
        split: sum.splits prod.splits option.splits)
qed

text \<open>
  C7. When the \<open>try\<close> block of a window ends without throwing, processedCount plus
  failedCount equals eventCount, which is the number of events the query returned. Every
  event of the list is attempted once, in the world its predecessors left, whatever their
  outcomes were, and adds one to exactly one of the two counters before the events after it
  are processed.
\<close>

theorem window_counts_add_up:
  assumes "window_try e c cfg q cur
             \<lparr>fromBlock = fromBlock0, toBlock = 0, eventCount = 0, processedCount = 0,
              failedCount = 0\<rparr> w = (Inr ctx', w')"
  shows "processedCount ctx' + failedCount ctx' = eventCount ctx'
    \<and> (\<exists>evs. queryFilter e (length (rpc_calls w)) fromBlock0
                 (min (fromBlock0 + SCAN_WITH_SPACE_BLOCK c) cur) = Inr evs
              \<and> eventCount ctx' = length evs)
    \<and> process_events e c cfg q (pre @ ev # post) ctx w1 =
        (case process_events e c cfg q pre ctx w1 of
           (ctx2, w2) \<Rightarrow>
             (case processEvent e c cfg q ev w2 of
                (Inr u, w3) \<Rightarrow>
                  process_events e c cfg q post
                    (ctx2\<lparr>processedCount := processedCount ctx2 + 1\<rparr>) w3
              | (Inl eventError, w3) \<Rightarrow>
                  process_events e c cfg q post
                    (ctx2\<lparr>failedCount := failedCount ctx2 + 1\<rparr>) w3))"
proof -
  obtain evs where q: "queryFilter e (length (rpc_calls w)) fromBlock0
      (min (fromBlock0 + SCAN_WITH_SPACE_BLOCK c) cur) = Inr evs"
    using assms by (cases "queryFilter e (length (rpc_calls w)) fromBlock0
      (min (fromBlock0 + SCAN_WITH_SPACE_BLOCK c) cur)") (auto simp: window_try_result)
  obtain w2 where run: "process_events e c cfg q evs
      \<lparr>fromBlock = fromBlock0, toBlock = min (fromBlock0 + SCAN_WITH_SPACE_BLOCK c) cur,
       eventCount = length evs, processedCount = 0, failedCount = 0\<rparr>
      (w\<lparr>rpc_calls := rpc_calls w @
         [QueryFilter fromBlock0 (min (fromBlock0 + SCAN_WITH_SPACE_BLOCK c) cur)]\<rparr>) =
      (ctx', w2)"
    using assms q by (auto simp: window_try_result split: prod.splits)
  have counts: "processedCount ctx' + failedCount ctx' = eventCount ctx'
      \<and> eventCount ctx' = length evs"
    using process_events_counts [OF run] by simp
  have each: "process_events e c cfg q (pre @ ev # post) ctx w1 =
        (case process_events e c cfg q pre ctx w1 of
           (ctx2, w2) \<Rightarrow>
             (case processEvent e c cfg q ev w2 of
                (Inr u, w3) \<Rightarrow>
                  process_events e c cfg q post
                    (ctx2\<lparr>processedCount := processedCount ctx2 + 1\<rparr>) w3
              | (Inl eventError, w3) \<Rightarrow>
                  process_events e c cfg q post
                    (ctx2\<lparr>failedCount := failedCount ctx2 + 1\<rparr>) w3))"
    by (simp add: process_events_append split: prod.splits)
  show ?thesis
    using counts q each by blast
qed

theorem window_counts_add_up_witness:
  "fst (window_try two_events_env demo_constants (sqsConfig demo_awsConfig)
          (queue_url demo_awsConfig) 120 (fresh_context 100) world0) =
     Inr \<lparr>fromBlock = 100, toBlock = 120, eventCount = 2, processedCount = 1,
          failedCount = 1\<rparr>
   \<and> (\<exists>evs. queryFilter two_events_env (length (rpc_calls world0)) 100
                (min (100 + SCAN_WITH_SPACE_BLOCK demo_constants) 120) = Inr evs
             \<and> length evs = 2)"
proof -
  define C where "C = \<lparr>fromBlock = 100, toBlock = 120, eventCount = 2, processedCount = 1,
          failedCount = (1::nat)\<rparr>"
  have run: "window_try two_events_env demo_constants (sqsConfig demo_awsConfig)
          (queue_url demo_awsConfig) 120
          \<lparr>fromBlock = 100, toBlock = 0, eventCount = 0, processedCount = 0,
           failedCount = 0\<rparr> world0 =
        (Inr C, snd (window_try two_events_env demo_constants (sqsConfig demo_awsConfig)
          (queue_url demo_awsConfig) 120 (fresh_context 100) world0))"
    unfolding C_def by code_simp
  have sum: "processedCount C + failedCount C = eventCount C
      \<and> (\<exists>evs. queryFilter two_events_env (length (rpc_calls world0)) 100
                (min (100 + SCAN_WITH_SPACE_BLOCK demo_constants) 120) = Inr evs
             \<and> eventCount C = length evs)"
    using window_counts_add_up [OF run] by blast
  have first: "fst (window_try two_events_env demo_constants (sqsConfig demo_awsConfig)
          (queue_url demo_awsConfig) 120 (fresh_context 100) world0) = Inr C"
    using arg_cong [OF run, of fst] by (simp add: fresh_context_def)
  show ?thesis
    using sum first by (simp add: C_def)
qed

text \<open>
  C5. When the log query of a window throws, the loop turn leaves \<open>fromBlock\<close> unchanged and
  pauses for twice RETRY_DELAY, where a turn without a window-level error ends with a pause of
  RETRY_DELAY. When the query of that window throws every time, the loop is still running
  after any number \<open>k\<close> of turns, having queried that same window \<open>k\<close> times: the retry has
  no bound.
\<close>

theorem failed_window_is_retried:
  "(queryFilter e (length (rpc_calls w)) fb (min (fb + SCAN_WITH_SPACE_BLOCK c) cur) = Inl err
      \<longrightarrow> scan_iteration e c cfg q cur fb w =
           (fb, w\<lparr>clock := clock w + nat (RETRY_DELAY c * 2),
                  rpc_calls := rpc_calls w @
                    [QueryFilter fb (min (fb + SCAN_WITH_SPACE_BLOCK c) cur)],
                  naps := naps w @ [RETRY_DELAY c * 2]\<rparr>))
   \<and> (queryFilter e (length (rpc_calls w)) fb (min (fb + SCAN_WITH_SPACE_BLOCK c) cur) = Inr evs
      \<longrightarrow> last (naps (snd (scan_iteration e c cfg q cur fb w))) = RETRY_DELAY c)
   \<and> (fb < cur \<and> (\<forall>n. isl (queryFilter e n fb (min (fb + SCAN_WITH_SPACE_BLOCK c) cur)))
      \<longrightarrow> scan_loop k e c cfg q cur fb w =
           (None, w\<lparr>clock := clock w + k * nat (RETRY_DELAY c * 2),
                    rpc_calls := rpc_calls w @
                      replicate k (QueryFilter fb (min (fb + SCAN_WITH_SPACE_BLOCK c) cur)),
                    naps := naps w @ replicate k (RETRY_DELAY c * 2)\<rparr>))"
proof -
  have ok: "last (naps (snd (scan_iteration e c cfg q cur fb w))) = RETRY_DELAY c"
    if "queryFilter e (length (rpc_calls w)) fb (min (fb + SCAN_WITH_SPACE_BLOCK c) cur) =
          Inr evs"
    using that by (simp add: scan_iteration_def window_try_result split: prod.splits)
  show ?thesis
    using scan_iteration_failure scan_loop_stuck ok by blast
qed

theorem failed_window_is_retried_witness:
  "scan_iteration query_fails_env demo_constants (sqsConfig demo_awsConfig)
       (queue_url demo_awsConfig) 500 100 world0 =
     (100, \<lparr>clock = 2000, requests = [], rpc_calls = [QueryFilter 100 150], naps = [2000]\<rparr>)
   \<and> last (naps (snd (scan_iteration demo_env demo_constants (sqsConfig demo_awsConfig)
                         (queue_url demo_awsConfig) 500 100 world0))) = 1000
   \<and> scan_loop 3 query_fails_env demo_constants (sqsConfig demo_awsConfig)
       (queue_url demo_awsConfig) 500 100 world0 =
     (None, \<lparr>clock = 6000, requests = [],
             rpc_calls = [QueryFilter 100 150, QueryFilter 100 150, QueryFilter 100 150],
             naps = [2000, 2000, 2000]\<rparr>)"
proof -
  have win: "min (100 + SCAN_WITH_SPACE_BLOCK demo_constants) 500 = (150::int)"
    by (simp add: demo_constants_def)
  have fails: "queryFilter query_fails_env (length (rpc_calls world0)) 100
      (min (100 + SCAN_WITH_SPACE_BLOCK demo_constants) 500) = Inl (Error ''timeout'')"
    by (simp add: query_fails_env_def demo_env_def)
  have always: "(100::int) < 500
      \<and> (\<forall>n. isl (queryFilter query_fails_env n 100
             (min (100 + SCAN_WITH_SPACE_BLOCK demo_constants) 500)))"
    by (simp add: query_fails_env_def demo_env_def)
  have ok: "queryFilter demo_env (length (rpc_calls world0)) 100
      (min (100 + SCAN_WITH_SPACE_BLOCK demo_constants) 500) = Inr []"
    by (simp add: demo_env_def)
  have three: "replicate 3 x = [x, x, x]" for x :: 'a
    by (simp add: numeral_3_eq_3)
  show ?thesis
    using failed_window_is_retried [of query_fails_env world0 100 demo_constants 500
        "Error ''timeout''" "sqsConfig demo_awsConfig" "queue_url demo_awsConfig" "[]" 3]
      failed_window_is_retried [of demo_env world0 100 demo_constants 500
        "Error ''timeout''" "sqsConfig demo_awsConfig" "queue_url demo_awsConfig" "[]" 3]
      fails always ok
    by (simp add: win three world0_def demo_constants_def)
qed

text \<open>
  C6. The chain head is read once, before the loop, and the loop never reads it again: that
  one value bounds every window.
  When the query of a window does not throw, the window runs from \<open>fromBlock\<close> to the minimum
  of \<open>fromBlock\<close> plus the window size and the chain head, and the next turn starts one block
  after that upper bound.
\<close>

theorem window_advance:
  "head_reads (snd (scan_loop k e c cfg q cur fb w)) = head_reads w
   \<and> (validateAwsConfig e awsConfig = Inr () \<and> new_Contract e = Inr () \<longrightarrow>
        head_reads (snd (scanTokenMigratedEvents k e c awsConfig w)) = head_reads w + 1)
   \<and> (queryFilter e (length (rpc_calls w)) fb (min (fb + SCAN_WITH_SPACE_BLOCK c) cur) = Inr evs
      \<longrightarrow> (\<exists>ctx' w'.
            window_try e c cfg q cur
              \<lparr>fromBlock = fb, toBlock = 0, eventCount = 0, processedCount = 0,
               failedCount = 0\<rparr> w = (Inr ctx', w')
            \<and> fromBlock ctx' = fb
            \<and> toBlock ctx' = min (fb + SCAN_WITH_SPACE_BLOCK c) cur
            \<and> scan_iteration e c cfg q cur fb w = (toBlock ctx' + 1, w')))"
proof -
  have adv: "\<exists>ctx' w'.
            window_try e c cfg q cur
              \<lparr>fromBlock = fb, toBlock = 0, eventCount = 0, processedCount = 0,
               failedCount = 0\<rparr> w = (Inr ctx', w')
            \<and> fromBlock ctx' = fb
            \<and> toBlock ctx' = min (fb + SCAN_WITH_SPACE_BLOCK c) cur
            \<and> scan_iteration e c cfg q cur fb w = (toBlock ctx' + 1, w')"
    if ok: "queryFilter e (length (rpc_calls w)) fb (min (fb + SCAN_WITH_SPACE_BLOCK c) cur) =
          Inr evs"
  proof -
    obtain ctx2 w2 where run: "process_events e c cfg q evs
        \<lparr>fromBlock = fb, toBlock = min (fb + SCAN_WITH_SPACE_BLOCK c) cur,
         eventCount = length evs, processedCount = 0, failedCount = 0\<rparr>
        (w\<lparr>rpc_calls := rpc_calls w @
           [QueryFilter fb (min (fb + SCAN_WITH_SPACE_BLOCK c) cur)]\<rparr>) = (ctx2, w2)"
      by (meson surj_pair)
    have w: "window_try e c cfg q cur
              \<lparr>fromBlock = fb, toBlock = 0, eventCount = 0, processedCount = 0,
               failedCount = 0\<rparr> w = (Inr ctx2, sleep (RETRY_DELAY c) w2)"
      using ok run by (simp add: window_try_result)
    have "fromBlock ctx2 = fb \<and> toBlock ctx2 = min (fb + SCAN_WITH_SPACE_BLOCK c) cur"
      using process_events_counts [OF run] by simp
    then show ?thesis
      using w by (simp add: scan_iteration_def)
  qed
  show ?thesis
    using adv scan_loop_head_reads scan_reads_head_once by blast
qed

theorem window_advance_witness:
  "fst (scan_iteration demo_env demo_constants (sqsConfig demo_awsConfig)
          (queue_url demo_awsConfig) 120 100 world0) = 121
   \<and> fst (scan_iteration demo_env demo_constants (sqsConfig demo_awsConfig)
          (queue_url demo_awsConfig) 500 100 world0) = 151
   \<and> scan_loop 1 demo_env demo_constants (sqsConfig demo_awsConfig)
       (queue_url demo_awsConfig) 120 100 world0 =
     (Some (), \<lparr>clock = 1000, requests = [], rpc_calls = [QueryFilter 100 120],
                naps = [1000]\<rparr>)
   \<and> rpc_calls (snd (scan_loop 2 demo_env demo_constants (sqsConfig demo_awsConfig)
                        (queue_url demo_awsConfig) 500 100 world0)) =
       [QueryFilter 100 150, QueryFilter 151 201]
   \<and> rpc_calls (snd (scanTokenMigratedEvents 5 demo_env demo_constants demo_awsConfig
                        world0)) =
       [GetBlockNumber, QueryFilter 100 120]
   \<and> head_reads (snd (scanTokenMigratedEvents 5 demo_env demo_constants demo_awsConfig
                         world0)) = 1"
proof -
  have valid: "validateAwsConfig demo_env demo_awsConfig = Inr () \<and> new_Contract demo_env = Inr ()"
    by code_simp
  have start: "head_reads world0 = 0"
    by (simp add: head_reads_def world0_def)
  have reads: "head_reads (snd (scanTokenMigratedEvents 5 demo_env demo_constants demo_awsConfig
                         world0)) = 1"
    using window_advance [of 5 demo_env demo_constants "sqsConfig demo_awsConfig"
        "queue_url demo_awsConfig" 120 100 world0 demo_awsConfig "[]"] valid start
    by simp
  have once: "rpc_calls (snd (scanTokenMigratedEvents 5 demo_env demo_constants demo_awsConfig
                        world0)) =
       [GetBlockNumber, QueryFilter 100 120]"
    by code_simp
  have ok1: "queryFilter demo_env (length (rpc_calls world0)) 100
      (min (100 + SCAN_WITH_SPACE_BLOCK demo_constants) 120) = Inr []"
    by (simp add: demo_env_def)
  have ok2: "queryFilter demo_env (length (rpc_calls world0)) 100
      (min (100 + SCAN_WITH_SPACE_BLOCK demo_constants) 500) = Inr []"
    by (simp add: demo_env_def)
  have a: "fst (scan_iteration demo_env demo_constants (sqsConfig demo_awsConfig)
          (queue_url demo_awsConfig) 120 100 world0) = 121"
    using window_advance [of 1 demo_env demo_constants "sqsConfig demo_awsConfig"
        "queue_url demo_awsConfig" 120 100 world0 demo_awsConfig "[]"] ok1
    by (auto simp: demo_constants_def)
  have b: "fst (scan_iteration demo_env demo_constants (sqsConfig demo_awsConfig)
          (queue_url demo_awsConfig) 500 100 world0) = 151"
    using window_advance [of 1 demo_env demo_constants "sqsConfig demo_awsConfig"
        "queue_url demo_awsConfig" 500 100 world0 demo_awsConfig "[]"] ok2
    by (auto simp: demo_constants_def)
  have c: "scan_loop 1 demo_env demo_constants (sqsConfig demo_awsConfig)
       (queue_url demo_awsConfig) 120 100 world0 =
     (Some (), \<lparr>clock = 1000, requests = [], rpc_calls = [QueryFilter 100 120],
                naps = [1000]\<rparr>)"
    by code_simp
  have d: "rpc_calls (snd (scan_loop 2 demo_env demo_constants (sqsConfig demo_awsConfig)
                        (queue_url demo_awsConfig) 500 100 world0)) =
       [QueryFilter 100 150, QueryFilter 151 201]"
    by code_simp
  show ?thesis using a b c d once reads by simp
qed

text \<open>
  C1 as stated fails. With one event in the window and every delivery attempt failing, all
  three attempts are spent and the window ends with processedCount 1 and failedCount 0.
\<close>

theorem exhausted_delivery_counted_processed:
  "every_attempt_throws undeliverable_env
   \<and> fst (window_try undeliverable_env demo_constants (sqsConfig demo_awsConfig)
            (queue_url demo_awsConfig) 120 (fresh_context 100) world0) =
       Inr \<lparr>fromBlock = 100, toBlock = 120, eventCount = 1, processedCount = 1,
            failedCount = 0\<rparr>
   \<and> length (requests (snd (window_try undeliverable_env demo_constants
                               (sqsConfig demo_awsConfig) (queue_url demo_awsConfig) 120
                               (fresh_context 100) world0))) = 3"
proof -
  have a: "every_attempt_throws undeliverable_env"
    by (simp add: every_attempt_throws_def undeliverable_env_def demo_env_def)
  have b: "fst (window_try undeliverable_env demo_constants (sqsConfig demo_awsConfig)
            (queue_url demo_awsConfig) 120 (fresh_context 100) world0) =
       Inr \<lparr>fromBlock = 100, toBlock = 120, eventCount = 1, processedCount = 1,
            failedCount = 0\<rparr>"
    by code_simp
  have c: "length (requests (snd (window_try undeliverable_env demo_constants
                               (sqsConfig demo_awsConfig) (queue_url demo_awsConfig) 120
                               (fresh_context 100) world0))) = 3"
    by code_simp
  show ?thesis using a b c by simp
qed

text \<open>
  C1, amended. When the Delivery Client exhausts its attempts for an event and returns
  \<open>undefined\<close>, the exhaustion is not reported upward: \<open>processEvent\<close> returns normally and
  the scan loop counts the event in processedCount, not in failedCount. Nothing is thrown, so
  it is neither a window-level nor a fatal error.
\<close>

theorem exhaustion_is_not_reported:
  assumes "args ev = Some a"
    and "getBlock e (length (rpc_calls w)) (blockNumber ev) = Inr blockData"
    and "migrationData_of c a ev blockData = Inr migrationData"
    and "sendMessageToSQS e c cfg
           (queue_payload q
              (json_text e
                 (message_object TOKEN_MIGRATED migrationData (transactionHash ev)
                    (transactionIndex ev) (logIndex ev) (blockNumber ev)))
              (transactionHash ev) (transactionIndex ev) (logIndex ev))
           (w\<lparr>rpc_calls := rpc_calls w @ [GetBlock (blockNumber ev)]\<rparr>) = (Inr None, w')"
  shows "processEvent e c cfg q ev w = (Inr (), w')
    \<and> process_events e c cfg q [ev] ctx w =
        (ctx\<lparr>processedCount := processedCount ctx + 1\<rparr>, w')"
proof -
  have ser: "JSON_stringify e
      (message_object TOKEN_MIGRATED migrationData (transactionHash ev)
         (transactionIndex ev) (logIndex ev) (blockNumber ev)) =
      Inr (json_text e
         (message_object TOKEN_MIGRATED migrationData (transactionHash ev)
            (transactionIndex ev) (logIndex ev) (blockNumber ev)))"
    using migrationData_of_serializable [OF assms(3)]
    by (simp add: JSON_stringify_def has_bigint_message_object)
  have "processEvent e c cfg q ev w = (Inr (), w')"
    using assms by (simp add: processEvent_def Let_def sendMessage_def ser)
  then show ?thesis by simp
qed

theorem exhaustion_is_not_reported_witness:
  "processEvent undeliverable_env demo_constants (sqsConfig demo_awsConfig)
       (queue_url demo_awsConfig) example_event world0 =
     (Inr (), snd (processEvent undeliverable_env demo_constants (sqsConfig demo_awsConfig)
                     (queue_url demo_awsConfig) example_event world0))
   \<and> processedCount (fst (process_events undeliverable_env demo_constants
                             (sqsConfig demo_awsConfig) (queue_url demo_awsConfig)
                             [example_event] (fresh_context 100) world0)) = 1
   \<and> length (requests (snd (processEvent undeliverable_env demo_constants
                               (sqsConfig demo_awsConfig) (queue_url demo_awsConfig)
                               example_event world0))) = 3"
proof -
  define a where "a = \<lparr>token = Some ''0xabc'', pairAddress = Some ''0xdef'',
        amountToken = Some 2000000000000000000, amountETH = Some 1000000000000000000\<rparr>"
  define w1 where "w1 = world0\<lparr>rpc_calls := rpc_calls world0 @ [GetBlock (blockNumber example_event)]\<rparr>"
  define payload where "payload = queue_payload (queue_url demo_awsConfig)
              (json_text undeliverable_env
                 (message_object TOKEN_MIGRATED example_message (transactionHash example_event)
                    (transactionIndex example_event) (logIndex example_event)
                    (blockNumber example_event)))
              (transactionHash example_event) (transactionIndex example_event)
              (logIndex example_event)"
  define w' where "w' = snd (sendMessageToSQS undeliverable_env demo_constants
      (sqsConfig demo_awsConfig) payload w1)"
  have h1: "args example_event = Some a"
    by (simp add: example_event_def a_def)
  have h2: "getBlock undeliverable_env (length (rpc_calls world0)) (blockNumber example_event) =
      Inr (Some 1700000000)"
    by (simp add: undeliverable_env_def demo_env_def)
  have h3: "migrationData_of demo_constants a example_event (Some 1700000000) =
      Inr example_message"
    using example_transform [of demo_constants] by (simp add: demo_constants_def a_def)
  have ser: "JSON_stringify undeliverable_env payload = Inr ''{}''"
    by (simp add: JSON_stringify_def payload_def queue_payload_def queue_url_def
        demo_awsConfig_def config_with_def undeliverable_env_def demo_env_def)
  have thr: "every_attempt_throws undeliverable_env"
    by (simp add: every_attempt_throws_def undeliverable_env_def demo_env_def)
  have ex: "fst (sendMessageToSQS undeliverable_env demo_constants (sqsConfig demo_awsConfig)
        payload w1) = Inr None
      \<and> length (requests w') = length (requests w1) + nat (MAX_TRIES_BEFORE_RETRY demo_constants)"
    using retry_loop_exhausted [OF thr ser, of demo_constants "sqsConfig demo_awsConfig" _ _ 0 w1]
    by (simp add: sendMessageToSQS_unfold authorizationHeader_of_serializable [OF ser] w'_def)
  then have h4: "sendMessageToSQS undeliverable_env demo_constants (sqsConfig demo_awsConfig)
        payload w1 = (Inr None, w')"
    by (simp add: w'_def prod_eq_iff)
  have len: "length (requests w') = 3"
    using ex by (simp add: w1_def world0_def demo_constants_def)
  note inst = exhaustion_is_not_reported [OF h1 h2 h3 h4 [unfolded payload_def w1_def],
      where ctx = "fresh_context 100"]
  show ?thesis
    using inst len by (simp add: fresh_context_def)
qed

text \<open>
  C4 as stated fails. With a region outside the list of valid regions the validation fails and
  the process ends with status 0.
\<close>

theorem invalid_config_exits_zero:
  "isl (validateAwsConfig demo_env
          (config_with (Some ''mars-1'') (Some ''AKID'') (Some ''secret'') (Some ''https://q'')))
   \<and> exit_status 5 demo_env demo_constants
        (config_with (Some ''mars-1'') (Some ''AKID'') (Some ''secret'') (Some ''https://q''))
        world0 = Some 0"
  by code_simp

text \<open>
  C4, amended. Whenever the configuration validation fails, \<open>scanTokenMigratedEvents\<close>
  returns normally with the world untouched (no chain call, no request, no event processed).
  The process then ends with status 0 when the configuration has its \<open>AWS\<close> and
  \<open>CREDENTIALS\<close> objects; without one of them sqs.service.ts throws while it loads and the
  process ends with status 1 before the validation runs. The process ends with status 0 only
  after a failed validation or after the scan loop has ended.
\<close>

theorem config_failure_returns_quietly:
  assumes "validateAwsConfig e awsConfig = Inl err"
  shows "scanTokenMigratedEvents fuel e c awsConfig w = (Some (Inr ()), w)
    \<and> (load_sqs_service awsConfig = Inr cfg \<longrightarrow> exit_status fuel e c awsConfig w = Some 0)
    \<and> (load_sqs_service awsConfig = Inl err' \<longrightarrow> exit_status fuel e c awsConfig w = Some 1)
    \<and> (exit_status fuel' e' c' awsConfig' w' = Some 0 \<longrightarrow>
         isl (validateAwsConfig e' awsConfig')
         \<or> (\<exists>cur. new_Contract e' = Inr ()
               \<and> getBlockNumber e' (length (rpc_calls w')) = Inr cur
               \<and> fst (scan_loop fuel' e' c' (sqsConfig awsConfig') (queue_url awsConfig') cur
                      (START_BLOCK c')
                      (w'\<lparr>rpc_calls := rpc_calls w' @ [GetBlockNumber]\<rparr>)) = Some ()))"
proof -
  have quiet: "scanTokenMigratedEvents fuel e c awsConfig w = (Some (Inr ()), w)"
    using assms by (simp add: scanTokenMigratedEvents_def)
  have zero: "exit_status fuel e c awsConfig w = Some 0"
    if "load_sqs_service awsConfig = Inr cfg"
    using that quiet by (simp add: exit_status_def)
  have one: "exit_status fuel e c awsConfig w = Some 1"
    if "load_sqs_service awsConfig = Inl err'"
    using that by (simp add: exit_status_def)
  show ?thesis
    apply (intro conjI impI)
       apply (rule quiet)
      apply (erule zero)
     apply (erule one)
    apply (erule exit_status_zero)
    done
qed

theorem config_failure_returns_quietly_witness:
  "exit_status 5 demo_env demo_constants
       (config_with None (Some ''AKID'') (Some ''secret'') (Some ''https://q'')) world0 = Some 0
   \<and> exit_status 5 demo_env demo_constants
       (config_with (Some ''mars-1'') (Some ''AKID'') (Some ''secret'') (Some ''https://q''))
       world0 = Some 0
   \<and> exit_status 5 demo_env demo_constants
       (config_with (Some ''us-east-1'') None (Some ''secret'') (Some ''https://q'')) world0 =
       Some 0
   \<and> exit_status 5 demo_env demo_constants
       (config_with (Some ''us-east-1'') (Some ''AKID'') (Some ''secret'') None) world0 = Some 0
   \<and> scanTokenMigratedEvents 5 unreachable_queue_env demo_constants demo_awsConfig world0 =
       (Some (Inr ()), world0)
   \<and> exit_status 5 unreachable_queue_env demo_constants demo_awsConfig world0 = Some 0
   \<and> scanTokenMigratedEvents 5 demo_env demo_constants None world0 = (Some (Inr ()), world0)
   \<and> exit_status 5 demo_env demo_constants None world0 = Some 1
   \<and> exit_status 5 demo_env demo_constants
       (Some \<lparr>REGION = Some ''us-east-1'', CREDENTIALS = None,
              SQS_QUEUE_URL = Some ''https://q''\<rparr>) world0 = Some 1
   \<and> exit_status 5 demo_env demo_constants demo_awsConfig world0 = Some 0
   \<and> (\<exists>cur. getBlockNumber demo_env (length (rpc_calls world0)) = Inr cur
          \<and> fst (scan_loop 5 demo_env demo_constants (sqsConfig demo_awsConfig)
                 (queue_url demo_awsConfig) cur (START_BLOCK demo_constants)
                 (world0\<lparr>rpc_calls := rpc_calls world0 @ [GetBlockNumber]\<rparr>)) = Some ())"
proof -
  have f1: "validateAwsConfig demo_env
      (config_with None (Some ''AKID'') (Some ''secret'') (Some ''https://q'')) =
      Inl (ConfigError ''REGION_INVALID'' ''AWS Region is required'')"
    by code_simp
  have f2: "validateAwsConfig demo_env
      (config_with (Some ''mars-1'') (Some ''AKID'') (Some ''secret'') (Some ''https://q'')) =
      Inl (ConfigError ''REGION_INVALID''
        ''Invalid region in config. Please use a valid AWS region (e.g., us-east-1, ap-southeast-1)'')"
    by code_simp
  have f3: "validateAwsConfig demo_env
      (config_with (Some ''us-east-1'') None (Some ''secret'') (Some ''https://q'')) =
      Inl (ConfigError ''CREDENTIALS_MISSING''
        ''AWS Credentials (ACCESS_KEY_ID and SECRET_ACCESS_KEY) are required'')"
    by code_simp
  have f4: "validateAwsConfig demo_env
      (config_with (Some ''us-east-1'') (Some ''AKID'') (Some ''secret'') None) =
      Inl (ConfigError ''QUEUE_URL_MISSING'' ''SQS Queue URL is required'')"
    by code_simp
  have f5: "validateAwsConfig unreachable_queue_env demo_awsConfig =
      Inl (ConfigError ''NetworkingError'' ''getaddrinfo ENOTFOUND'')"
    by code_simp
  have f6: "validateAwsConfig demo_env None =
      Inl (ConfigError ''CONFIG_NOT_FOUND'' ''AWS configuration not found'')"
    by code_simp
  have f7: "validateAwsConfig demo_env
      (Some \<lparr>REGION = Some ''us-east-1'', CREDENTIALS = None,
             SQS_QUEUE_URL = Some ''https://q''\<rparr>) =
      Inl (ConfigError ''CREDENTIALS_MISSING''
        ''AWS Credentials (ACCESS_KEY_ID and SECRET_ACCESS_KEY) are required'')"
    by code_simp
  have loads: "load_sqs_service (config_with rgn keyId secret queue) =
      Inr (sqsConfig (config_with rgn keyId secret queue))" for rgn keyId secret queue
    by (simp add: load_sqs_service_def config_with_def)
  have l5: "load_sqs_service demo_awsConfig = Inr (sqsConfig demo_awsConfig)"
    by (simp add: demo_awsConfig_def loads)
  have l6: "load_sqs_service None =
      Inl (TypeError ''Cannot read properties of undefined (reading REGION)'')"
    by (simp add: load_sqs_service_def)
  have l7: "load_sqs_service
      (Some \<lparr>REGION = Some ''us-east-1'', CREDENTIALS = None,
             SQS_QUEUE_URL = Some ''https://q''\<rparr>) =
      Inl (TypeError ''Cannot read properties of undefined (reading ACCESS_KEY_ID)'')"
    by (simp add: load_sqs_service_def)
  have fin: "exit_status 5 demo_env demo_constants demo_awsConfig world0 = Some 0"
    by code_simp
  have valid: "\<not> isl (validateAwsConfig demo_env demo_awsConfig)"
    by code_simp
  have nb: "new_Contract demo_env = Inr ()"
    by (simp add: demo_env_def)
  have completed: "\<exists>cur. getBlockNumber demo_env (length (rpc_calls world0)) = Inr cur
          \<and> fst (scan_loop 5 demo_env demo_constants (sqsConfig demo_awsConfig)
                 (queue_url demo_awsConfig) cur (START_BLOCK demo_constants)
                 (world0\<lparr>rpc_calls := rpc_calls world0 @ [GetBlockNumber]\<rparr>)) = Some ()"
    using config_failure_returns_quietly [OF f1, of 5 demo_constants world0 _ _ 5 demo_env
        demo_constants demo_awsConfig world0] fin valid
    by simp
  show ?thesis
    using config_failure_returns_quietly [OF f1, of 5 demo_constants world0] loads
      config_failure_returns_quietly [OF f2, of 5 demo_constants world0]
      config_failure_returns_quietly [OF f3, of 5 demo_constants world0]
      config_failure_returns_quietly [OF f4, of 5 demo_constants world0]
      config_failure_returns_quietly [OF f5, of 5 demo_constants world0] l5
      config_failure_returns_quietly [OF f6, of 5 demo_constants world0] l6
      config_failure_returns_quietly [OF f7, of 5 demo_constants world0] l7
      fin completed
    by simp
qed

end
